theory Spec2Isabelle
  imports Complex_Main
begin

section \<open>Banco.py: a terminal bank session\<close>

text \<open>
  The program keeps a session ledger (\<open>saldo\<close>, \<open>extrato\<close>, \<open>numero_saques\<close>) in the
  local variables of \<open>main\<close>, and two directories (\<open>usuarios\<close>, \<open>contas\<close>) that it
  writes to JSON files after every creation. Each Python function is embedded below under
  its own name. What is printed is a list of \<open>msg\<close> values, one per \<open>print\<close> call:
  returned beside the result by the functions that only print, appended to the output of
  the world by the others. The prompts of \<open>input\<close> are not recorded.
\<close>

subsection \<open>Python floats\<close>

text \<open>
  \<open>validar_valor\<close> turns the typed text into a Python \<open>float\<close>, so amounts and the
  balance are floats: a finite number, one of the two infinities (\<open>float("inf")\<close> is
  accepted input) or NaN. A finite float is the real number it stands for. The integers
  \<open>0\<close> and \<open>500\<close> that \<open>main\<close> starts from are \<open>Fin 0\<close> and \<open>Fin 500\<close>.
\<close>

datatype pyfloat = NaN | NInf | Fin real | PInf

text \<open>\<open>py_gt a b\<close> is Python's \<open>a > b\<close>: every comparison with NaN is false.\<close>

fun py_gt :: "pyfloat \<Rightarrow> pyfloat \<Rightarrow> bool" where
  "py_gt NaN b = False"
| "py_gt a NaN = False"
| "py_gt (Fin x) (Fin y) = (y < x)"
| "py_gt PInf PInf = False"
| "py_gt PInf b = True"
| "py_gt a PInf = False"
| "py_gt NInf b = False"
| "py_gt a NInf = True"

text \<open>\<open>py_ge a b\<close> is Python's \<open>a >= b\<close>.\<close>

fun py_ge :: "pyfloat \<Rightarrow> pyfloat \<Rightarrow> bool" where
  "py_ge NaN b = False"
| "py_ge a NaN = False"
| "py_ge (Fin x) (Fin y) = (y \<le> x)"
| "py_ge PInf b = True"
| "py_ge a NInf = True"
| "py_ge a PInf = False"
| "py_ge NInf b = False"

text \<open>
  \<open>py_add rd a b\<close> is \<open>a + b\<close> and \<open>py_sub rd a b\<close> is \<open>a - b\<close>. On finite floats
  the result is the exact sum or difference, rounded: \<open>rd\<close> is the rounding of binary64
  (to the nearest float, or to an infinity on overflow), a parameter. The special values
  follow IEEE 754.
\<close>

fun py_add :: "(real \<Rightarrow> pyfloat) \<Rightarrow> pyfloat \<Rightarrow> pyfloat \<Rightarrow> pyfloat" where
  "py_add rd NaN b = NaN"
| "py_add rd a NaN = NaN"
| "py_add rd (Fin x) (Fin y) = rd (x + y)"
| "py_add rd PInf NInf = NaN"
| "py_add rd NInf PInf = NaN"
| "py_add rd PInf b = PInf"
| "py_add rd NInf b = NInf"
| "py_add rd a PInf = PInf"
| "py_add rd a NInf = NInf"

fun py_sub :: "(real \<Rightarrow> pyfloat) \<Rightarrow> pyfloat \<Rightarrow> pyfloat \<Rightarrow> pyfloat" where
  "py_sub rd NaN b = NaN"
| "py_sub rd a NaN = NaN"
| "py_sub rd (Fin x) (Fin y) = rd (x - y)"
| "py_sub rd PInf PInf = NaN"
| "py_sub rd NInf NInf = NaN"
| "py_sub rd PInf b = PInf"
| "py_sub rd NInf b = NInf"
| "py_sub rd a PInf = NInf"
| "py_sub rd a NInf = PInf"

subsection \<open>What the program prints\<close>

text \<open>
  One constructor for each \<open>print\<close> call of the source (accents dropped here):
  \<^item> \<open>Valor_invalido\<close>: "Operacao falhou! O valor informado e invalido." (lines 48, 51);
  \<^item> \<open>Deposito_sucesso\<close>: "Deposito realizado com sucesso!" (line 59);
  \<^item> \<open>Saldo_insuficiente\<close>: "Operacao falhou! Voce nao tem saldo suficiente." (line 70);
  \<^item> \<open>Excede_limite\<close>: "Operacao falhou! O valor do saque excede o limite." (line 72);
  \<^item> \<open>Saques_excedido\<close>: "Operacao falhou! Numero maximo de saques excedido." (line 74);
  \<^item> \<open>Saque_sucesso\<close>: "Saque realizado com sucesso!" (line 79);
  \<^item> \<open>Extrato_cabecalho\<close>, \<open>Sem_movimentacoes\<close> or \<open>Extrato_texto extrato\<close>,
    \<open>Extrato_saldo\<close> (with the formatted balance) and \<open>Extrato_rodape\<close>: the four
    prints of \<open>exibir_extrato\<close> (lines 86 to 89);
  \<^item> \<open>Usuario_existe\<close>: "Ja existe usuario com esse CPF!" (line 98);
  \<^item> \<open>Usuario_criado\<close>: "Usuario criado com sucesso!" (line 107);
  \<^item> \<open>Conta_criada\<close>: "Conta criada com sucesso!" (line 124);
  \<^item> \<open>Usuario_nao_encontrado\<close>: "Usuario nao encontrado, fluxo de criacao de conta
    encerrado!" (line 126);
  \<^item> \<open>Separador\<close> and \<open>Conta_texto agencia numero titular\<close>: the prints of
    \<open>listar_contas\<close> (lines 137 to 139);
  \<^item> \<open>Saindo\<close>: "Saindo do sistema. Ate mais!" (line 186);
  \<^item> \<open>Operacao_invalida\<close>: "Operacao invalida, por favor selecione novamente a operacao
    desejada." (line 190).
\<close>

datatype msg =
    Valor_invalido
  | Deposito_sucesso
  | Saldo_insuficiente
  | Excede_limite
  | Saques_excedido
  | Saque_sucesso
  | Extrato_cabecalho
  | Sem_movimentacoes
  | Extrato_texto string
  | Extrato_saldo string
  | Extrato_rodape
  | Usuario_existe
  | Usuario_criado
  | Conta_criada
  | Usuario_nao_encontrado
  | Separador
  | Conta_texto string int string
  | Saindo
  | Operacao_invalida

subsection \<open>Records and the Python library\<close>

text \<open>
  A user is a Python dict with the keys \<open>nome\<close>, \<open>data_nascimento\<close>, \<open>cpf\<close> and
  \<open>endereco\<close>, an account a dict with the keys \<open>agencia\<close>, \<open>numero_conta\<close> and
  \<open>usuario\<close>; the fields below carry a prefix because the source uses the bare names
  for its variables. Every record of a directory is taken to have this shape, as every
  record the program writes has.

  The value under \<open>usuario\<close> is whatever \<open>filtrar_usuario\<close> returned: the dict object
  of the user directory itself. To keep that visible, user dicts live in a store
  (\<open>objetos\<close>, a list: an object's address is its index, a new object is appended), the
  directory \<open>usuarios\<close> is a list of addresses, and an account in memory is a
  \<open>nat conta\<close> holding an address. In a file an account holds the user's fields: a
  \<open>usuario conta\<close>.
\<close>

record usuario =
  u_nome :: string
  u_data_nascimento :: string
  u_cpf :: string
  u_endereco :: string

record 'u conta =
  c_agencia :: string
  c_numero_conta :: int
  c_usuario :: 'u

datatype erro = EOFError | JSONDecodeError

text \<open>
  What the program takes from Python itself, as parameters: the rounding of an exact
  result to a float, the built-in \<open>float\<close> (\<open>None\<close> where it raises
  \<open>ValueError\<close>), the format \<open>.2f\<close>, and \<open>json.dump\<close> (with \<open>indent=4\<close>) and
  \<open>json.load\<close> at the two types of data the program stores (a load is \<open>None\<close> where
  \<open>json.load\<close> raises).
\<close>

record pylib =
  py_round :: "real \<Rightarrow> pyfloat"
  py_float :: "string \<Rightarrow> pyfloat option"
  py_fmt2f :: "pyfloat \<Rightarrow> string"
  dump_usuarios :: "usuario list \<Rightarrow> string"
  load_usuarios :: "string \<Rightarrow> usuario list option"
  dump_contas :: "usuario conta list \<Rightarrow> string"
  load_contas :: "string \<Rightarrow> usuario conta list option"

subsection \<open>The ledger operations\<close>

text \<open>
  The statement \<open>extrato\<close> is a Python string; its characters are code points, all below
  256 here, so \<open>CHR 0xF3\<close> is the o with acute accent of "Deposito", \<open>CHR 0x09\<close> the tab
  and \<open>CHR 0x0A\<close> the newline. The formatted amount \<open>{valor:.2f}\<close> is
  \<open>py_fmt2f lib valor\<close>.
\<close>

definition linha_deposito :: "pylib \<Rightarrow> pyfloat \<Rightarrow> string" where
  "linha_deposito lib valor =
     ''Dep'' @ [CHR 0xF3] @ ''sito:'' @ [CHR 0x09] @ ''R$ '' @ py_fmt2f lib valor @ [CHR 0x0A]"

definition linha_saque :: "pylib \<Rightarrow> pyfloat \<Rightarrow> string" where
  "linha_saque lib valor =
     ''Saque:'' @ [CHR 0x09, CHR 0x09] @ ''R$ '' @ py_fmt2f lib valor @ [CHR 0x0A]"

text \<open>The number of lines of a statement: its newline characters.\<close>

definition linhas :: "string \<Rightarrow> nat" where
  "linhas extrato = count_list extrato (CHR 0x0A)"

definition depositar ::
  "pylib \<Rightarrow> pyfloat \<Rightarrow> pyfloat \<Rightarrow> string \<Rightarrow> (pyfloat \<times> string) \<times> msg list" where
  "depositar lib saldo valor extrato =
     ((py_add (py_round lib) saldo valor, extrato @ linha_deposito lib valor),
      [Deposito_sucesso])"

definition sacar ::
  "pylib \<Rightarrow> pyfloat \<Rightarrow> pyfloat \<Rightarrow> string \<Rightarrow> pyfloat \<Rightarrow> int \<Rightarrow> int
     \<Rightarrow> (pyfloat \<times> string \<times> int) \<times> msg list" where
  "sacar lib saldo valor extrato limite numero_saques limite_saques =
     (let excedeu_saldo = py_gt valor saldo;
          excedeu_limite = py_gt valor limite;
          excedeu_saques = (numero_saques \<ge> limite_saques)
      in if excedeu_saldo then ((saldo, extrato, numero_saques), [Saldo_insuficiente])
         else if excedeu_limite then ((saldo, extrato, numero_saques), [Excede_limite])
         else if excedeu_saques then ((saldo, extrato, numero_saques), [Saques_excedido])
         else ((py_sub (py_round lib) saldo valor, extrato @ linha_saque lib valor,
                numero_saques + 1),
               [Saque_sucesso]))"

text \<open>\<open>validar_valor\<close> returns Python's \<open>None\<close> as \<open>None\<close>.\<close>

definition validar_valor :: "pylib \<Rightarrow> string \<Rightarrow> pyfloat option \<times> msg list" where
  "validar_valor lib valor =
     (case py_float lib valor of
        Some x \<Rightarrow> if py_gt x (Fin 0) then (Some x, []) else (None, [Valor_invalido])
      | None \<Rightarrow> (None, [Valor_invalido]))"

definition exibir_extrato :: "pylib \<Rightarrow> pyfloat \<Rightarrow> string \<Rightarrow> msg list" where
  "exibir_extrato lib saldo extrato =
     [Extrato_cabecalho,
      if extrato = [] then Sem_movimentacoes else Extrato_texto extrato,
      Extrato_saldo (py_fmt2f lib saldo),
      Extrato_rodape]"

subsection \<open>The rejection test with strict comparisons\<close>

text \<open>
  Stated from the words of the specification, not from the source: a withdrawal is
  rejected when the amount is greater than the balance, or greater than the limit, or
  the count is greater than the maximum, all three comparisons strict. It is here to be
  compared with \<open>sacar\<close>, whose third comparison is \<open>>=\<close>.
\<close>

definition rejeita_estrito :: "pyfloat \<Rightarrow> pyfloat \<Rightarrow> pyfloat \<Rightarrow> int \<Rightarrow> int \<Rightarrow> bool" where
  "rejeita_estrito saldo valor limite numero_saques limite_saques =
     (py_gt valor saldo \<or> py_gt valor limite \<or> numero_saques > limite_saques)"

subsection \<open>Constants\<close>

definition LIMITE_SAQUES :: int where
  "LIMITE_SAQUES = 3"

definition AGENCIA :: string where
  "AGENCIA = ''0001''"

definition USUARIOS_FILE :: string where
  "USUARIOS_FILE = ''usuarios.json''"

definition CONTAS_FILE :: string where
  "CONTAS_FILE = ''contas.json''"

subsection \<open>The world\<close>

text \<open>
  The world outside the variables of \<open>main\<close>: the lines still to be read from standard
  input, what has been printed, the files of the working directory (name to content), the
  names of the files written so far, one entry per write, and the store of user dicts.
\<close>

record mundo =
  entrada :: "string list"
  saida :: "msg list"
  arquivos :: "string \<rightharpoonup> string"
  escritas :: "string list"
  objetos :: "usuario list"

text \<open>\<open>input\<close> raises \<open>EOFError\<close> when standard input is exhausted.\<close>

definition py_input :: "mundo \<Rightarrow> erro + (string \<times> mundo)" where
  "py_input w = (case entrada w of [] \<Rightarrow> Inl EOFError | l # ls \<Rightarrow> Inr (l, w\<lparr>entrada := ls\<rparr>))"

definition py_print :: "msg list \<Rightarrow> mundo \<Rightarrow> mundo" where
  "py_print ms w = w\<lparr>saida := saida w @ ms\<rparr>"

subsection \<open>The persistence adapter\<close>

text \<open>
  \<open>carregar_dados\<close> reads a file of the world and \<open>salvar_dados\<close> writes one; the
  JSON codec is the parameter. Opening a file for writing replaces its content.
\<close>

definition carregar_dados ::
  "(string \<Rightarrow> 'a list option) \<Rightarrow> string \<Rightarrow> mundo \<Rightarrow> erro + 'a list" where
  "carregar_dados load arquivo w =
     (case arquivos w arquivo of
        Some f \<Rightarrow> (case load f of Some dados \<Rightarrow> Inr dados | None \<Rightarrow> Inl JSONDecodeError)
      | None \<Rightarrow> Inr [])"

definition salvar_dados :: "('a list \<Rightarrow> string) \<Rightarrow> string \<Rightarrow> 'a list \<Rightarrow> mundo \<Rightarrow> mundo" where
  "salvar_dados dump arquivo dados w =
     w\<lparr>arquivos := (arquivos w)(arquivo \<mapsto> dump dados), escritas := escritas w @ [arquivo]\<rparr>"

text \<open>
  What \<open>json.dump\<close> sees when it walks a directory: the fields of each user dict as the
  store holds them at that moment.
\<close>

definition dados_usuarios :: "usuario list \<Rightarrow> nat list \<Rightarrow> usuario list" where
  "dados_usuarios objs usuarios = map (\<lambda>a. objs ! a) usuarios"

definition dados_conta :: "usuario list \<Rightarrow> nat conta \<Rightarrow> usuario conta" where
  "dados_conta objs c =
     \<lparr>c_agencia = c_agencia c, c_numero_conta = c_numero_conta c, c_usuario = objs ! c_usuario c\<rparr>"

definition dados_contas :: "usuario list \<Rightarrow> nat conta list \<Rightarrow> usuario conta list" where
  "dados_contas objs contas = map (dados_conta objs) contas"

subsection \<open>The directories\<close>

text \<open>\<open>filtrar_usuario\<close> returns the first matching dict object (its address), or \<open>None\<close>.\<close>

definition filtrar_usuario :: "string \<Rightarrow> nat list \<Rightarrow> usuario list \<Rightarrow> nat option" where
  "filtrar_usuario cpf usuarios objs = find (\<lambda>a. u_cpf (objs ! a) = cpf) usuarios"

text \<open>
  \<open>criar_usuario\<close> appends to the list it was given; the model returns the list. A dict
  with four keys is true in \<open>if usuario\<close>, so the test is whether a user was found.
\<close>

definition criar_usuario :: "pylib \<Rightarrow> nat list \<Rightarrow> mundo \<Rightarrow> erro + (nat list \<times> mundo)" where
  "criar_usuario lib usuarios w =
     (case py_input w of Inl e \<Rightarrow> Inl e | Inr (cpf, w1) \<Rightarrow>
      (case filtrar_usuario cpf usuarios (objetos w1) of
         Some usuario \<Rightarrow> Inr (usuarios, py_print [Usuario_existe] w1)
       | None \<Rightarrow>
          (case py_input w1 of Inl e \<Rightarrow> Inl e | Inr (nome, w2) \<Rightarrow>
           (case py_input w2 of Inl e \<Rightarrow> Inl e | Inr (data_nascimento, w3) \<Rightarrow>
            (case py_input w3 of Inl e \<Rightarrow> Inl e | Inr (endereco, w4) \<Rightarrow>
               let novo = \<lparr>u_nome = nome, u_data_nascimento = data_nascimento,
                           u_cpf = cpf, u_endereco = endereco\<rparr>;
                   usuarios' = usuarios @ [length (objetos w4)];
                   w5 = w4\<lparr>objetos := objetos w4 @ [novo]\<rparr>;
                   w6 = salvar_dados (dump_usuarios lib) USUARIOS_FILE
                          (dados_usuarios (objetos w5) usuarios') w5
               in Inr (usuarios', py_print [Usuario_criado] w6))))))"

definition criar_conta ::
  "pylib \<Rightarrow> string \<Rightarrow> int \<Rightarrow> nat list \<Rightarrow> nat conta list \<Rightarrow> mundo
     \<Rightarrow> erro + (nat conta list \<times> mundo)" where
  "criar_conta lib agencia numero_conta usuarios contas w =
     (case py_input w of Inl e \<Rightarrow> Inl e | Inr (cpf, w1) \<Rightarrow>
      (case filtrar_usuario cpf usuarios (objetos w1) of
         Some usuario \<Rightarrow>
           let conta = \<lparr>c_agencia = agencia, c_numero_conta = numero_conta,
                        c_usuario = usuario\<rparr>;
               contas' = contas @ [conta];
               w2 = salvar_dados (dump_contas lib) CONTAS_FILE
                      (dados_contas (objetos w1) contas') w1
           in Inr (contas', py_print [Conta_criada] w2)
       | None \<Rightarrow> Inr (contas, py_print [Usuario_nao_encontrado] w1)))"

definition listar_contas :: "nat conta list \<Rightarrow> mundo \<Rightarrow> mundo" where
  "listar_contas contas w =
     py_print
       (concat (map (\<lambda>conta. [Separador,
                               Conta_texto (c_agencia conta) (c_numero_conta conta)
                                           (u_nome (objetos w ! c_usuario conta))]) contas)
        @ [Separador]) w"

subsection \<open>The interactive loop\<close>

text \<open>
  The local variables of \<open>main\<close>. A state of the session is these variables and the
  world.
\<close>

record locais =
  saldo :: pyfloat
  limite :: pyfloat
  extrato :: string
  numero_saques :: int
  usuarios :: "nat list"
  contas :: "nat conta list"

type_synonym estado = "locais \<times> mundo"

text \<open>
  \<open>if valor\<close> tests the truth value of what \<open>validar_valor\<close> returned: \<open>None\<close> is
  false, and a float is false exactly when it is zero.
\<close>

fun verdadeiro :: "pyfloat option \<Rightarrow> bool" where
  "verdadeiro None = False"
| "verdadeiro (Some (Fin x)) = (x \<noteq> 0)"
| "verdadeiro (Some y) = True"

text \<open>
  One pass through the body of \<open>while True\<close>: the loop goes on, is left by \<open>break\<close>,
  or an exception ends the program.
\<close>

datatype passo = Continua estado | Sai estado | Excecao erro

definition menu :: "mundo \<Rightarrow> erro + (string \<times> mundo)" where
  "menu w = py_input w"

definition iteracao :: "pylib \<Rightarrow> estado \<Rightarrow> passo" where
  "iteracao lib s =
     (case s of (v, w) \<Rightarrow>
      (case menu w of Inl e \<Rightarrow> Excecao e | Inr (opcao, w1) \<Rightarrow>
        if opcao = ''d'' then
          (case py_input w1 of Inl e \<Rightarrow> Excecao e | Inr (texto, w2) \<Rightarrow>
           (case validar_valor lib texto of (valor, ms) \<Rightarrow>
              if verdadeiro valor then
                (case depositar lib (saldo v) (the valor) (extrato v) of
                   ((saldo', extrato'), ms') \<Rightarrow>
                     Continua (v\<lparr>saldo := saldo', extrato := extrato'\<rparr>,
                               py_print ms' (py_print ms w2)))
              else Continua (v, py_print ms w2)))
        else if opcao = ''s'' then
          (case py_input w1 of Inl e \<Rightarrow> Excecao e | Inr (texto, w2) \<Rightarrow>
           (case validar_valor lib texto of (valor, ms) \<Rightarrow>
              if verdadeiro valor then
                (case sacar lib (saldo v) (the valor) (extrato v) (limite v)
                        (numero_saques v) LIMITE_SAQUES of
                   ((saldo', extrato', numero_saques'), ms') \<Rightarrow>
                     Continua (v\<lparr>saldo := saldo', extrato := extrato',
                                 numero_saques := numero_saques'\<rparr>,
                               py_print ms' (py_print ms w2)))
              else Continua (v, py_print ms w2)))
        else if opcao = ''e'' then
          Continua (v, py_print (exibir_extrato lib (saldo v) (extrato v)) w1)
        else if opcao = ''nu'' then
          (case criar_usuario lib (usuarios v) w1 of Inl e \<Rightarrow> Excecao e
           | Inr (usuarios', w2) \<Rightarrow> Continua (v\<lparr>usuarios := usuarios'\<rparr>, w2))
        else if opcao = ''nc'' then
          (let numero_conta = int (length (contas v)) + 1
           in case criar_conta lib AGENCIA numero_conta (usuarios v) (contas v) w1 of
                Inl e \<Rightarrow> Excecao e
              | Inr (contas', w2) \<Rightarrow> Continua (v\<lparr>contas := contas'\<rparr>, w2))
        else if opcao = ''lc'' then
          Continua (v, listar_contas (contas v) w1)
        else if opcao = ''q'' then
          Sai (v, py_print [Saindo] w1)
        else
          Continua (v, py_print [Operacao_invalida] w1)))"

text \<open>
  The state after \<open>n\<close> passes through the loop body, if the program gets that far; a
  pass that ends in \<open>break\<close> is the last one.
\<close>

fun apos :: "nat \<Rightarrow> pylib \<Rightarrow> estado \<Rightarrow> estado option" where
  "apos 0 lib s = Some s"
| "apos (Suc n) lib s =
     (case iteracao lib s of
        Continua s' \<Rightarrow> apos n lib s'
      | Sai s' \<Rightarrow> (if n = 0 then Some s' else None)
      | Excecao e \<Rightarrow> None)"

text \<open>
  The start of \<open>main\<close>, in a process that has read nothing, printed nothing and
  written no file: the ledger is empty and the two directories are read from their
  files. Every dict that \<open>json.load\<close> builds is a new object: the users first, then the
  user embedded in each account.
\<close>

definition aloca_contas :: "nat \<Rightarrow> usuario conta list \<Rightarrow> nat conta list" where
  "aloca_contas n cs =
     map (\<lambda>(i, c). \<lparr>c_agencia = c_agencia c, c_numero_conta = c_numero_conta c,
                     c_usuario = n + i\<rparr>) (enumerate 0 cs)"

definition mundo_inicial :: "string list \<Rightarrow> (string \<rightharpoonup> string) \<Rightarrow> mundo" where
  "mundo_inicial stdin fs =
     \<lparr>entrada = stdin, saida = [], arquivos = fs, escritas = [], objetos = []\<rparr>"

definition inicio :: "pylib \<Rightarrow> string list \<Rightarrow> (string \<rightharpoonup> string) \<Rightarrow> erro + estado" where
  "inicio lib stdin fs =
     (let w = mundo_inicial stdin fs
      in case carregar_dados (load_usuarios lib) USUARIOS_FILE w of Inl e \<Rightarrow> Inl e
         | Inr us \<Rightarrow>
        (case carregar_dados (load_contas lib) CONTAS_FILE w of Inl e \<Rightarrow> Inl e
         | Inr cs \<Rightarrow>
           Inr (\<lparr>saldo = Fin 0, limite = Fin 500, extrato = [], numero_saques = 0,
                 usuarios = [0..<length us], contas = aloca_contas (length us) cs\<rparr>,
                w\<lparr>objetos := us @ map c_usuario cs\<rparr>)))"

text \<open>
  The loop itself. Every pass reads at least the menu choice, so on a finite input the
  loop ends: by \<open>q\<close>, or by the \<open>EOFError\<close> of \<open>input\<close>.
\<close>

lemma py_input_entrada:
  "py_input w = Inr (l, w') \<Longrightarrow> length (entrada w') < length (entrada w)"
  by (auto simp: py_input_def split: list.splits)

lemma py_print_entrada: "entrada (py_print ms w) = entrada w"
  by (simp add: py_print_def)

lemma salvar_dados_entrada: "entrada (salvar_dados dump arquivo dados w) = entrada w"
  by (simp add: salvar_dados_def)

lemma listar_contas_entrada: "entrada (listar_contas cs w) = entrada w"
  by (simp add: listar_contas_def py_print_entrada)

lemma criar_usuario_entrada:
  "criar_usuario lib us w = Inr (us', w') \<Longrightarrow> length (entrada w') < length (entrada w)"
  by (auto simp: criar_usuario_def py_print_entrada salvar_dados_entrada Let_def
           split: sum.splits option.splits prod.splits dest!: py_input_entrada)

lemma criar_conta_entrada:
  "criar_conta lib ag n us cs w = Inr (cs', w') \<Longrightarrow> length (entrada w') < length (entrada w)"
  by (auto simp: criar_conta_def py_print_entrada salvar_dados_entrada Let_def
           split: sum.splits option.splits prod.splits dest!: py_input_entrada)

lemma iteracao_entrada:
  "iteracao lib (v, w) = Continua (v', w') \<Longrightarrow> length (entrada w') < length (entrada w)"
  unfolding iteracao_def menu_def
  by (auto simp: py_print_entrada listar_contas_entrada Let_def
           split: sum.splits prod.splits if_splits
           dest!: py_input_entrada criar_usuario_entrada criar_conta_entrada)

function main_loop :: "pylib \<Rightarrow> estado \<Rightarrow> erro + estado" where
  "main_loop lib s =
     (case iteracao lib s of
        Continua s' \<Rightarrow> main_loop lib s'
      | Sai s' \<Rightarrow> Inr s'
      | Excecao e \<Rightarrow> Inl e)"
  by pat_completeness auto
termination
  by (relation "measure (\<lambda>(lib, s). length (entrada (snd s)))")
     (auto dest: iteracao_entrada)

definition main :: "pylib \<Rightarrow> string list \<Rightarrow> (string \<rightharpoonup> string) \<Rightarrow> erro + estado" where
  "main lib stdin fs =
     (case inicio lib stdin fs of Inl e \<Rightarrow> Inl e | Inr s \<Rightarrow> main_loop lib s)"

subsection \<open>The ledger invariant\<close>

text \<open>
  The successful withdrawals of a session so far: each prints its success message once,
  and nothing else prints that message.
\<close>

definition saques_feitos :: "mundo \<Rightarrow> nat" where
  "saques_feitos w = count_list (saida w) Saque_sucesso"

text \<open>
  What holds at every point of a session: \<open>numero_saques\<close> counts the successful
  withdrawals and is at most \<open>LIMITE_SAQUES\<close>; the balance is not negative and the
  limit is the 500 that \<open>main\<close> set.
\<close>

definition contagem_ok :: "estado \<Rightarrow> bool" where
  "contagem_ok s =
     (case s of (v, w) \<Rightarrow>
        numero_saques v = int (saques_feitos w) \<and> numero_saques v \<le> LIMITE_SAQUES)"

definition saldo_ok :: "estado \<Rightarrow> bool" where
  "saldo_ok s = (case s of (v, w) \<Rightarrow> py_ge (saldo v) (Fin 0) \<and> limite v = Fin 500)"

text \<open>Every address held by a directory is an address of the store.\<close>

definition enderecos_ok :: "estado \<Rightarrow> bool" where
  "enderecos_ok s =
     (case s of (v, w) \<Rightarrow>
        (\<forall>a\<in>set (usuarios v). a < length (objetos w))
        \<and> (\<forall>c\<in>set (contas v). c_usuario c < length (objetos w)))"

subsection \<open>A change to a user record\<close>

text \<open>
  The program never changes a user after creating it. Where a property speaks of such a
  change, it is the Python assignment \<open>usuarios[i][key] = value\<close>: an update of the
  dict object at address \<open>a = usuarios ! i\<close>.
\<close>

definition modificar_usuario :: "nat \<Rightarrow> (usuario \<Rightarrow> usuario) \<Rightarrow> mundo \<Rightarrow> mundo" where
  "modificar_usuario a f w = w\<lparr>objetos := (objetos w)[a := f (objetos w ! a)]\<rparr>"

subsection \<open>Example inputs\<close>

text \<open>
  A finite excerpt of the built-ins \<open>float\<close> and \<open>format(x, ".2f")\<close>, enough for the
  concrete runs below: \<open>float("100")\<close> is \<open>100.0\<close>, \<open>float("abc")\<close> raises
  \<open>ValueError\<close>, and so on. The sums and differences of these runs are small whole
  numbers, which binary64 holds exactly: the rounding of the examples is \<open>Fin\<close>.
\<close>

definition float_exemplo :: "string \<Rightarrow> pyfloat option" where
  "float_exemplo t =
     (if t = ''100'' then Some (Fin 100)
      else if t = ''30'' then Some (Fin 30)
      else if t = ''10'' then Some (Fin 10)
      else if t = ''0'' then Some (Fin 0)
      else if t = ''-5'' then Some (Fin (- 5))
      else if t = ''inf'' then Some PInf
      else if t = ''nan'' then Some NaN
      else None)"

definition fmt_exemplo :: "pyfloat \<Rightarrow> string" where
  "fmt_exemplo x =
     (if x = Fin 100 then ''100.00''
      else if x = Fin 30 then ''30.00''
      else if x = Fin 10 then ''10.00''
      else if x = Fin 500 then ''500.00''
      else if x = Fin 200 then ''200.00''
      else if x = PInf then ''inf''
      else ''0.00'')"

text \<open>
  Two users, and a stand-in for the JSON codec: a dump that writes the fields of each
  record one after the other, and loads that read back the dumps of the directories
  used below.
\<close>

definition ana :: usuario where
  "ana = \<lparr>u_nome = ''Ana Lima'', u_data_nascimento = ''01-02-1990'', u_cpf = ''123'',
          u_endereco = ''Rua A, 1 - Centro - Recife/PE''\<rparr>"

definition bia :: usuario where
  "bia = \<lparr>u_nome = ''Bia Reis'', u_data_nascimento = ''03-04-1985'', u_cpf = ''456'',
          u_endereco = ''Rua B, 2 - Sul - Natal/RN''\<rparr>"

definition dump_usuarios_exemplo :: "usuario list \<Rightarrow> string" where
  "dump_usuarios_exemplo us =
     concat (map (\<lambda>u. u_nome u @ ''|'' @ u_data_nascimento u @ ''|'' @ u_cpf u @ ''|''
                       @ u_endereco u @ '';'') us)"

definition dump_contas_exemplo :: "usuario conta list \<Rightarrow> string" where
  "dump_contas_exemplo cs =
     concat (map (\<lambda>c. c_agencia c @ ''|'' @ (if c_numero_conta c = 1 then ''1'' else ''n'')
                       @ ''|'' @ dump_usuarios_exemplo [c_usuario c]) cs)"

definition load_usuarios_exemplo :: "string \<Rightarrow> usuario list option" where
  "load_usuarios_exemplo t =
     (if t = dump_usuarios_exemplo [ana, bia] then Some [ana, bia]
      else if t = dump_usuarios_exemplo [ana] then Some [ana]
      else None)"

definition load_contas_exemplo :: "string \<Rightarrow> usuario conta list option" where
  "load_contas_exemplo t =
     (if t = dump_contas_exemplo [\<lparr>c_agencia = ''0001'', c_numero_conta = 1, c_usuario = ana\<rparr>]
      then Some [\<lparr>c_agencia = ''0001'', c_numero_conta = 1, c_usuario = ana\<rparr>]
      else None)"

definition lib_exemplo :: pylib where
  "lib_exemplo =
     \<lparr>py_round = Fin, py_float = float_exemplo, py_fmt2f = fmt_exemplo,
      dump_usuarios = dump_usuarios_exemplo, load_usuarios = load_usuarios_exemplo,
      dump_contas = dump_contas_exemplo, load_contas = load_contas_exemplo\<rparr>"

text \<open>
  Sessions started with no files: a deposit followed by three withdrawals of 10, from a
  deposit of 30 (which empties the account) and from a deposit of 100.
\<close>

definition s0_exemplo :: "string list \<Rightarrow> estado" where
  "s0_exemplo stdin =
     (\<lparr>saldo = Fin 0, limite = Fin 500, extrato = [], numero_saques = 0,
       usuarios = [], contas = []\<rparr>,
      \<lparr>entrada = stdin, saida = [], arquivos = Map.empty, escritas = [], objetos = []\<rparr>)"

definition entrada_3_saques :: "string list" where
  "entrada_3_saques = [''d'', ''30'', ''s'', ''10'', ''s'', ''10'', ''s'', ''10'']"

definition s4_exemplo :: estado where
  "s4_exemplo =
     (\<lparr>saldo = Fin 0, limite = Fin 500,
       extrato = linha_deposito lib_exemplo (Fin 30) @ linha_saque lib_exemplo (Fin 10)
                 @ linha_saque lib_exemplo (Fin 10) @ linha_saque lib_exemplo (Fin 10),
       numero_saques = 3, usuarios = [], contas = []\<rparr>,
      \<lparr>entrada = [], saida = [Deposito_sucesso, Saque_sucesso, Saque_sucesso, Saque_sucesso],
       arquivos = Map.empty, escritas = [], objetos = []\<rparr>)"

definition entrada_100 :: "string list" where
  "entrada_100 = [''d'', ''100'', ''s'', ''10'', ''s'', ''10'', ''s'', ''10'', ''s'', ''10'']"

definition s4_exemplo_100 :: estado where
  "s4_exemplo_100 =
     (\<lparr>saldo = Fin 70, limite = Fin 500,
       extrato = linha_deposito lib_exemplo (Fin 100) @ linha_saque lib_exemplo (Fin 10)
                 @ linha_saque lib_exemplo (Fin 10) @ linha_saque lib_exemplo (Fin 10),
       numero_saques = 3, usuarios = [], contas = []\<rparr>,
      \<lparr>entrada = [''s'', ''10''],
       saida = [Deposito_sucesso, Saque_sucesso, Saque_sucesso, Saque_sucesso],
       arquivos = Map.empty, escritas = [], objetos = []\<rparr>)"

text \<open>A world with one user in the store, and the account created for that user.\<close>

definition w_exemplo :: "string list \<Rightarrow> mundo" where
  "w_exemplo stdin =
     \<lparr>entrada = stdin, saida = [], arquivos = Map.empty, escritas = [], objetos = [ana]\<rparr>"

text \<open>
  After a restart with one user and one account on file, the store holds two dicts: the
  user of the directory, at address 0, and the copy that the loaded account holds.
\<close>

definition w_reinicio_exemplo :: "string list \<Rightarrow> mundo" where
  "w_reinicio_exemplo stdin =
     \<lparr>entrada = stdin, saida = [], arquivos = Map.empty, escritas = [],
      objetos = [ana, ana]\<rparr>"

definition conta_exemplo :: "nat conta" where
  "conta_exemplo = \<lparr>c_agencia = ''0001'', c_numero_conta = 1, c_usuario = 0\<rparr>"

definition w_conta_exemplo :: mundo where
  "w_conta_exemplo =
     \<lparr>entrada = [''q''], saida = [Conta_criada],
      arquivos = [CONTAS_FILE \<mapsto>
         dump_contas_exemplo [\<lparr>c_agencia = ''0001'', c_numero_conta = 1, c_usuario = ana\<rparr>]],
      escritas = [CONTAS_FILE],
      objetos = [ana]\<rparr>"

text \<open>
  That world after the name in the user's record is changed, with the same CPF typed in
  again, and the world after a second account is created then.
\<close>

definition w_mudado_exemplo :: mundo where
  "w_mudado_exemplo =
     (modificar_usuario 0 (\<lambda>u. u\<lparr>u_nome := ''Ana Souza''\<rparr>) w_conta_exemplo)
       \<lparr>entrada := [''123'']\<rparr>"

definition w_segunda_conta_exemplo :: mundo where
  "w_segunda_conta_exemplo =
     \<lparr>entrada = [], saida = [Conta_criada, Conta_criada],
      arquivos = [CONTAS_FILE \<mapsto>
         dump_contas_exemplo
           [\<lparr>c_agencia = ''0001'', c_numero_conta = 1,
             c_usuario = ana\<lparr>u_nome := ''Ana Souza''\<rparr>\<rparr>,
            \<lparr>c_agencia = ''0001'', c_numero_conta = 2,
             c_usuario = ana\<lparr>u_nome := ''Ana Souza''\<rparr>\<rparr>]],
      escritas = [CONTAS_FILE, CONTAS_FILE],
      objetos = [ana\<lparr>u_nome := ''Ana Souza''\<rparr>]\<rparr>"

section \<open>Properties of the ledger operations\<close>

lemma py_ge_not_gt: "py_ge a b \<Longrightarrow> \<not> py_gt b a"
  by (cases a; cases b) auto

lemma py_gt_zero_verdadeiro: "py_gt valor (Fin 0) \<Longrightarrow> verdadeiro (Some valor)"
  by (cases valor) auto

lemma linhas_append: "linhas (xs @ ys) = linhas xs + linhas ys"
  by (simp add: linhas_def)

lemma linhas_linha_deposito:
  "CHR 0x0A \<notin> set (py_fmt2f lib valor) \<Longrightarrow> linhas (linha_deposito lib valor) = 1"
  by (simp add: linhas_def linha_deposito_def count_list_0_iff)

lemma linhas_linha_saque:
  "CHR 0x0A \<notin> set (py_fmt2f lib valor) \<Longrightarrow> linhas (linha_saque lib valor) = 1"
  by (simp add: linhas_def linha_saque_def count_list_0_iff)

text \<open>The pass through the loop body that deposits a valid amount.\<close>

lemma iteracao_deposito:
  assumes "entrada w = ''d'' # texto # resto" "py_float lib texto = Some valor"
    "py_gt valor (Fin 0)"
  shows "iteracao lib (v, w) =
           Continua (v\<lparr>saldo := py_add (py_round lib) (saldo v) valor,
                       extrato := extrato v @ linha_deposito lib valor\<rparr>,
                     w\<lparr>entrada := resto, saida := saida w @ [Deposito_sucesso]\<rparr>)"
  using assms py_gt_zero_verdadeiro [OF assms(3)]
  by (simp add: iteracao_def menu_def py_input_def validar_valor_def depositar_def
      py_print_def)

text \<open>
  Claim C4. For every positive amount, every balance and every statement, \<open>depositar\<close>
  returns the balance plus the amount and the statement with one deposit line appended
  (one more newline, as long as the formatted amount has none), and prints the success
  message. In \<open>main\<close> the deposit pass changes \<open>saldo\<close> and \<open>extrato\<close> and nothing
  else: the withdrawal count, the directories, the files and the user objects stay as
  they were.
\<close>

theorem depositar_always_succeeds:
  assumes "py_gt valor (Fin 0)"
  shows "depositar lib sd valor ex
           = ((py_add (py_round lib) sd valor, ex @ linha_deposito lib valor),
              [Deposito_sucesso])
       \<and> (CHR 0x0A \<notin> set (py_fmt2f lib valor) \<longrightarrow>
            linhas (ex @ linha_deposito lib valor) = linhas ex + 1)
       \<and> (\<forall>v w texto resto.
            py_float lib texto = Some valor \<and> entrada w = ''d'' # texto # resto \<longrightarrow>
            iteracao lib (v, w) =
              Continua (v\<lparr>saldo := py_add (py_round lib) (saldo v) valor,
                          extrato := extrato v @ linha_deposito lib valor\<rparr>,
                        w\<lparr>entrada := resto, saida := saida w @ [Deposito_sucesso]\<rparr>))"
  using assms
  by (auto simp: depositar_def linhas_append linhas_linha_deposito iteracao_deposito)

theorem depositar_always_succeeds_witness:
  "py_gt (Fin 100) (Fin 0)
   \<and> depositar lib_exemplo (Fin 30) (Fin 100) ''''
       = ((Fin 130, ''Dep'' @ [CHR 0xF3] @ ''sito:'' @ [CHR 0x09] @ ''R$ 100.00'' @ [CHR 0x0A]),
          [Deposito_sucesso])
   \<and> linhas (snd (fst (depositar lib_exemplo (Fin 30) (Fin 100) ''''))) = 1"
  using depositar_always_succeeds [of "Fin 100" lib_exemplo "Fin 30" "''''"]
  by (simp add: lib_exemplo_def fmt_exemplo_def linha_deposito_def linhas_def)

text \<open>
  Claim C2. For every amount greater than the balance, \<open>sacar\<close> returns the balance, the
  statement and the withdrawal count unchanged and prints the insufficient-balance
  message and nothing else, whatever the limit and the count are. The three rejections
  are tried in the order balance, limit, count, and the first that holds gives the one
  message printed.
\<close>

theorem sacar_rejection_priority:
  "(py_gt valor sd \<longrightarrow>
      sacar lib sd valor ex lmt n nmax = ((sd, ex, n), [Saldo_insuficiente]))
   \<and> (\<not> py_gt valor sd \<and> py_gt valor lmt \<longrightarrow>
      sacar lib sd valor ex lmt n nmax = ((sd, ex, n), [Excede_limite]))
   \<and> (\<not> py_gt valor sd \<and> \<not> py_gt valor lmt \<and> nmax \<le> n \<longrightarrow>
      sacar lib sd valor ex lmt n nmax = ((sd, ex, n), [Saques_excedido]))"
  by (simp add: sacar_def)

theorem sacar_rejection_priority_witness:
  "sacar lib_exemplo (Fin 100) (Fin 600) ''x'' (Fin 500) 3 3
     = ((Fin 100, ''x'', 3), [Saldo_insuficiente])
   \<and> sacar lib_exemplo (Fin 1000) (Fin 600) ''x'' (Fin 500) 3 3
     = ((Fin 1000, ''x'', 3), [Excede_limite])
   \<and> sacar lib_exemplo (Fin 1000) (Fin 10) ''x'' (Fin 500) 3 3
     = ((Fin 1000, ''x'', 3), [Saques_excedido])"
  using sacar_rejection_priority [of "Fin 600" "Fin 100" lib_exemplo "''x''" "Fin 500" 3 3]
    sacar_rejection_priority [of "Fin 600" "Fin 1000" lib_exemplo "''x''" "Fin 500" 3 3]
    sacar_rejection_priority [of "Fin 10" "Fin 1000" lib_exemplo "''x''" "Fin 500" 3 3]
  by simp

text \<open>
  Claim C10, as amended. For every positive amount that is at most the balance and at
  most the limit, with the withdrawal count below the maximum, \<open>sacar\<close> succeeds: the
  balance goes down by the amount, one withdrawal line is appended to the statement and
  the count goes up by one. The comparisons with the balance and with the limit are
  strict, so an amount equal to the balance is paid out and leaves zero (the rounding of
  zero being zero), and an amount equal to the limit is paid out. The comparison of the
  count is not strict: with the count equal to the maximum (or above it) the same
  withdrawal is rejected with the maximum-withdrawals message and nothing changes.
\<close>

theorem sacar_succeeds:
  assumes "py_gt valor (Fin 0)" "py_ge sd valor" "py_ge lmt valor"
  shows "(n < nmax \<longrightarrow>
            sacar lib sd valor ex lmt n nmax
              = ((py_sub (py_round lib) sd valor, ex @ linha_saque lib valor, n + 1),
                 [Saque_sucesso])
            \<and> (CHR 0x0A \<notin> set (py_fmt2f lib valor) \<longrightarrow>
                 linhas (ex @ linha_saque lib valor) = linhas ex + 1)
            \<and> (sd = valor \<and> lmt \<noteq> PInf \<and> py_round lib 0 = Fin 0 \<longrightarrow>
                 py_sub (py_round lib) sd valor = Fin 0))
       \<and> (nmax \<le> n \<longrightarrow>
            sacar lib sd valor ex lmt n nmax = ((sd, ex, n), [Saques_excedido]))"
proof -
  have gt: "\<not> py_gt valor sd" "\<not> py_gt valor lmt"
    using assms(2,3) by (simp_all add: py_ge_not_gt)
  have "sacar lib sd valor ex lmt n nmax
           = ((py_sub (py_round lib) sd valor, ex @ linha_saque lib valor, n + 1),
              [Saque_sucesso])" if "n < nmax"
    using gt that by (simp add: sacar_def)
  moreover have "sd = valor \<and> lmt \<noteq> PInf \<and> py_round lib 0 = Fin 0 \<longrightarrow>
            py_sub (py_round lib) sd valor = Fin 0"
    using assms(1,3) by (cases valor; cases lmt) auto
  moreover have "sacar lib sd valor ex lmt n nmax = ((sd, ex, n), [Saques_excedido])"
    if "nmax \<le> n"
    using gt that by (simp add: sacar_def)
  ultimately show ?thesis
    by (simp add: linhas_append linhas_linha_saque)
qed

theorem sacar_succeeds_witness:
  "sacar lib_exemplo (Fin 200) (Fin 200) '''' (Fin 500) 0 3
     = ((Fin 0, ''Saque:'' @ [CHR 0x09, CHR 0x09] @ ''R$ 200.00'' @ [CHR 0x0A], 1),
        [Saque_sucesso])
   \<and> sacar lib_exemplo (Fin 700) (Fin 500) '''' (Fin 500) 2 3
     = ((Fin 200, ''Saque:'' @ [CHR 0x09, CHR 0x09] @ ''R$ 500.00'' @ [CHR 0x0A], 3),
        [Saque_sucesso])
   \<and> sacar lib_exemplo (Fin 700) (Fin 500) '''' (Fin 500) 3 3
     = ((Fin 700, '''', 3), [Saques_excedido])"
  using sacar_succeeds [of "Fin 200" "Fin 200" "Fin 500" 0 3 lib_exemplo "''''"]
    sacar_succeeds [of "Fin 500" "Fin 700" "Fin 500" 2 3 lib_exemplo "''''"]
    sacar_succeeds [of "Fin 500" "Fin 700" "Fin 500" 3 3 lib_exemplo "''''"]
  by (simp add: lib_exemplo_def fmt_exemplo_def linha_saque_def)

text \<open>
  Claim C10 as stated gives as the reason that all three rejection comparisons are
  strict. With three withdrawals made out of three, a withdrawal of 10 from a balance of
  100 meets none of the three strict comparisons, and \<open>sacar\<close> rejects it: the count is
  compared with \<open>>=\<close>.
\<close>

theorem sacar_strict_counterexample:
  "\<not> rejeita_estrito (Fin 100) (Fin 10) (Fin 500) 3 3
   \<and> sacar lib_exemplo (Fin 100) (Fin 10) '''' (Fin 500) 3 3
       = ((Fin 100, '''', 3), [Saques_excedido])"
  by (simp add: rejeita_estrito_def sacar_def)

section \<open>Properties of a session\<close>

subsection \<open>Who prints the withdrawal message\<close>

lemma saques_feitos_print:
  "saques_feitos (py_print ms w) = saques_feitos w + count_list ms Saque_sucesso"
  by (simp add: saques_feitos_def py_print_def)

lemma saques_feitos_input:
  "py_input w = Inr (l, w') \<Longrightarrow> saques_feitos w' = saques_feitos w"
  by (auto simp: py_input_def saques_feitos_def split: list.splits)

lemma saques_feitos_salvar:
  "saques_feitos (salvar_dados dump arquivo dados w) = saques_feitos w"
  by (simp add: saques_feitos_def salvar_dados_def)

lemma saques_feitos_objetos: "saques_feitos (w\<lparr>objetos := objs\<rparr>) = saques_feitos w"
  by (simp add: saques_feitos_def)

lemma saques_feitos_listar: "saques_feitos (listar_contas cs w) = saques_feitos w"
  by (simp add: listar_contas_def saques_feitos_print count_list_0_iff)

lemma saques_feitos_criar_usuario:
  "criar_usuario lib us w = Inr (us', w') \<Longrightarrow> saques_feitos w' = saques_feitos w"
  by (auto simp: criar_usuario_def Let_def saques_feitos_print saques_feitos_salvar
           saques_feitos_objetos
           split: sum.splits option.splits prod.splits dest!: saques_feitos_input)

lemma saques_feitos_criar_conta:
  "criar_conta lib ag k us cs w = Inr (cs', w') \<Longrightarrow> saques_feitos w' = saques_feitos w"
  by (auto simp: criar_conta_def Let_def saques_feitos_print saques_feitos_salvar
           split: sum.splits option.splits prod.splits dest!: saques_feitos_input)

lemma exibir_extrato_msgs: "count_list (exibir_extrato lib sd ex) Saque_sucesso = 0"
  by (simp add: exibir_extrato_def)

lemma validar_valor_msgs:
  "validar_valor lib texto = (valor, ms) \<Longrightarrow> count_list ms Saque_sucesso = 0"
  by (auto simp: validar_valor_def split: option.splits if_splits)

text \<open>An amount that passes \<open>if valor\<close> is positive, and nothing was printed for it.\<close>

lemma validar_valor_Some:
  "validar_valor lib texto = (valor, ms) \<Longrightarrow> verdadeiro valor \<Longrightarrow>
     (\<exists>x. valor = Some x \<and> py_float lib texto = Some x \<and> py_gt x (Fin 0)) \<and> ms = []"
  by (auto simp: validar_valor_def split: option.splits if_splits)

subsection \<open>What one pass does to the ledger\<close>

text \<open>
  A pass that does not end in an exception is a deposit of a positive amount, a call of
  \<open>sacar\<close> with a positive amount, or leaves the ledger alone.
\<close>

lemma iteracao_casos:
  assumes "iteracao lib (v, w) = Continua (v', w') \<or> iteracao lib (v, w) = Sai (v', w')"
  obtains
    (deposito) valor where "py_gt valor (Fin 0)"
      "saldo v' = py_add (py_round lib) (saldo v) valor" "limite v' = limite v"
      "numero_saques v' = numero_saques v" "saques_feitos w' = saques_feitos w"
  | (saque) valor ms where "py_gt valor (Fin 0)"
      "sacar lib (saldo v) valor (extrato v) (limite v) (numero_saques v) LIMITE_SAQUES
         = ((saldo v', extrato v', numero_saques v'), ms)"
      "limite v' = limite v" "saques_feitos w' = saques_feitos w + count_list ms Saque_sucesso"
  | (outro) "saldo v' = saldo v" "limite v' = limite v"
      "numero_saques v' = numero_saques v" "saques_feitos w' = saques_feitos w"
proof -
  from assms obtain opcao w1 where m: "py_input w = Inr (opcao, w1)"
    by (auto simp: iteracao_def menu_def split: sum.splits)
  have c1: "saques_feitos w1 = saques_feitos w"
    using saques_feitos_input [OF m] .
  consider (d) "opcao = ''d''" | (s) "opcao = ''s''" | (o) "opcao \<noteq> ''d''" "opcao \<noteq> ''s''"
    by blast
  then show ?thesis
  proof cases
    case d
    from assms obtain texto w2 where i2: "py_input w1 = Inr (texto, w2)"
      by (auto simp: iteracao_def menu_def m d split: sum.splits)
    have c2: "saques_feitos w2 = saques_feitos w"
      using saques_feitos_input [OF i2] c1 by simp
    obtain valor ms where vv: "validar_valor lib texto = (valor, ms)"
      by (cases "validar_valor lib texto")
    show ?thesis
    proof (cases "verdadeiro valor")
      case True
      then obtain x where x: "valor = Some x" "py_gt x (Fin 0)" "ms = []"
        using validar_valor_Some [OF vv] by auto
      have "v' = v\<lparr>saldo := py_add (py_round lib) (saldo v) x,
                    extrato := extrato v @ linha_deposito lib x\<rparr>
            \<and> w' = py_print [Deposito_sucesso] (py_print ms w2)"
        using assms True x
        by (simp add: iteracao_def menu_def m d i2 vv depositar_def)
      then show ?thesis
        using deposito [of x] x c2 by (simp add: saques_feitos_print)
    next
      case False
      then have "v' = v \<and> w' = py_print ms w2"
        using assms by (simp add: iteracao_def menu_def m d i2 vv)
      then show ?thesis
        using outro c2 validar_valor_msgs [OF vv] by (simp add: saques_feitos_print)
    qed
  next
    case s
    from assms obtain texto w2 where i2: "py_input w1 = Inr (texto, w2)"
      by (auto simp: iteracao_def menu_def m s split: sum.splits)
    have c2: "saques_feitos w2 = saques_feitos w"
      using saques_feitos_input [OF i2] c1 by simp
    obtain valor ms where vv: "validar_valor lib texto = (valor, ms)"
      by (cases "validar_valor lib texto")
    show ?thesis
    proof (cases "verdadeiro valor")
      case True
      then obtain x where x: "valor = Some x" "py_gt x (Fin 0)" "ms = []"
        using validar_valor_Some [OF vv] by auto
      obtain sd' ex' n' ms' where sac:
        "sacar lib (saldo v) x (extrato v) (limite v) (numero_saques v) LIMITE_SAQUES
           = ((sd', ex', n'), ms')"
        by (cases "sacar lib (saldo v) x (extrato v) (limite v) (numero_saques v)
                     LIMITE_SAQUES") auto
      have "v' = v\<lparr>saldo := sd', extrato := ex', numero_saques := n'\<rparr>
            \<and> w' = py_print ms' (py_print ms w2)"
        using assms True x sac
        by (simp add: iteracao_def menu_def m s i2 vv)
      then show ?thesis
        using saque [of x ms'] x sac c2 by (simp add: saques_feitos_print)
    next
      case False
      then have "v' = v \<and> w' = py_print ms w2"
        using assms by (simp add: iteracao_def menu_def m s i2 vv)
      then show ?thesis
        using outro c2 validar_valor_msgs [OF vv] by (simp add: saques_feitos_print)
    qed
  next
    case o
    have "saldo v' = saldo v \<and> limite v' = limite v \<and> numero_saques v' = numero_saques v
            \<and> saques_feitos w' = saques_feitos w"
      using assms o c1 unfolding iteracao_def menu_def
      by (auto simp: m Let_def saques_feitos_print saques_feitos_listar exibir_extrato_msgs
            split: sum.splits prod.splits if_splits
            dest!: saques_feitos_criar_usuario saques_feitos_criar_conta)
    then show ?thesis
      using outro by simp
  qed
qed

subsection \<open>The withdrawal count\<close>

lemma sacar_contagem:
  assumes "sacar lib sd valor ex lmt n LIMITE_SAQUES = ((sd', ex', n'), ms)"
    "n \<le> LIMITE_SAQUES"
  shows "n' = n + int (count_list ms Saque_sucesso) \<and> n' \<le> LIMITE_SAQUES"
  using assms by (auto simp: sacar_def Let_def split: if_splits)

lemma iteracao_contagem:
  assumes "iteracao lib s = Continua s' \<or> iteracao lib s = Sai s'" "contagem_ok s"
  shows "contagem_ok s'"
proof -
  obtain v w v' w' where s: "s = (v, w)" "s' = (v', w')"
    by (cases s, cases s') auto
  have ok: "numero_saques v = int (saques_feitos w)" "numero_saques v \<le> LIMITE_SAQUES"
    using assms(2) by (simp_all add: contagem_ok_def s)
  from assms(1) [unfolded s] show ?thesis
  proof (cases rule: iteracao_casos)
    case (deposito valor)
    then show ?thesis using ok by (simp add: contagem_ok_def s)
  next
    case (saque valor ms)
    then show ?thesis
      using ok sacar_contagem [OF saque(2) ok(2)] by (simp add: contagem_ok_def s)
  next
    case outro
    then show ?thesis using ok by (simp add: contagem_ok_def s)
  qed
qed

subsection \<open>The balance\<close>

lemma py_add_nonneg:
  assumes "\<forall>x\<ge>0. py_ge (rd x) (Fin 0)" "py_ge a (Fin 0)" "py_gt b (Fin 0)"
  shows "py_ge (py_add rd a b) (Fin 0)"
  using assms by (cases a; cases b) auto

lemma py_sub_nonneg:
  assumes "\<forall>x\<ge>0. py_ge (rd x) (Fin 0)" "py_ge a (Fin 0)" "\<not> py_gt b a"
    "\<not> py_gt b (Fin l)" "py_gt b (Fin 0)"
  shows "py_ge (py_sub rd a b) (Fin 0)"
  using assms by (cases a; cases b) auto

lemma sacar_saldo:
  assumes "sacar lib sd valor ex (Fin 500) n nmax = ((sd', ex', n'), ms)"
    "\<forall>x\<ge>0. py_ge (py_round lib x) (Fin 0)" "py_gt valor (Fin 0)" "py_ge sd (Fin 0)"
  shows "py_ge sd' (Fin 0)"
  using assms by (auto simp: sacar_def Let_def py_sub_nonneg split: if_splits)

lemma iteracao_saldo:
  assumes "iteracao lib s = Continua s' \<or> iteracao lib s = Sai s'" "saldo_ok s"
    "\<forall>x\<ge>0. py_ge (py_round lib x) (Fin 0)"
  shows "saldo_ok s'"
proof -
  obtain v w v' w' where s: "s = (v, w)" "s' = (v', w')"
    by (cases s, cases s') auto
  have ok: "py_ge (saldo v) (Fin 0)" "limite v = Fin 500"
    using assms(2) by (simp_all add: saldo_ok_def s)
  from assms(1) [unfolded s] show ?thesis
  proof (cases rule: iteracao_casos)
    case (deposito valor)
    then show ?thesis
      using ok py_add_nonneg [OF assms(3) ok(1) deposito(1)] by (simp add: saldo_ok_def s)
  next
    case (saque valor ms)
    then show ?thesis
      using ok sacar_saldo [OF saque(2) [unfolded ok(2)] assms(3) saque(1) ok(1)]
      by (simp add: saldo_ok_def s)
  next
    case outro
    then show ?thesis using ok by (simp add: saldo_ok_def s)
  qed
qed

subsection \<open>The invariant along a session\<close>

lemma inicio_ok: "inicio lib stdin fs = Inr s \<Longrightarrow> contagem_ok s \<and> saldo_ok s"
  by (auto simp: inicio_def mundo_inicial_def contagem_ok_def saldo_ok_def saques_feitos_def
           LIMITE_SAQUES_def Let_def split: sum.splits)

lemma apos_inv:
  assumes "\<And>s s'. iteracao lib s = Continua s' \<or> iteracao lib s = Sai s' \<Longrightarrow> P s \<Longrightarrow> P s'"
  shows "apos n lib s = Some s' \<Longrightarrow> P s \<Longrightarrow> P s'"
proof (induction n arbitrary: s)
  case 0
  then show ?case by simp
next
  case (Suc n)
  show ?case
  proof (cases "iteracao lib s")
    case (Continua t)
    then have "P t" using assms Suc.prems(2) by blast
    moreover have "apos n lib t = Some s'" using Suc.prems(1) Continua by simp
    ultimately show ?thesis using Suc.IH by blast
  next
    case (Sai t)
    then have "P t" using assms Suc.prems(2) by blast
    moreover have "t = s'" using Suc.prems(1) Sai by (simp split: if_splits)
    ultimately show ?thesis by simp
  next
    case (Excecao e)
    then show ?thesis using Suc.prems(1) by simp
  qed
qed

lemma apos_contagem: "apos n lib s = Some s' \<Longrightarrow> contagem_ok s \<Longrightarrow> contagem_ok s'"
  using apos_inv [where P = contagem_ok] iteracao_contagem by blast

lemma apos_saldo:
  assumes "\<forall>x\<ge>0. py_ge (py_round lib x) (Fin 0)"
  shows "apos n lib s = Some s' \<Longrightarrow> saldo_ok s \<Longrightarrow> saldo_ok s'"
  using apos_inv [where P = saldo_ok] iteracao_saldo assms by blast

text \<open>Where the loop ends by \<open>q\<close>, its final state is the state after some number of passes.\<close>

lemma main_loop_apos: "main_loop lib s = Inr s' \<Longrightarrow> \<exists>n. apos n lib s = Some s'"
proof (induction lib s rule: main_loop.induct)
  case (1 lib s)
  show ?case
  proof (cases "iteracao lib s")
    case (Continua t)
    then have "main_loop lib t = Inr s'"
      using "1.prems" by (simp add: main_loop.simps [of lib s])
    then obtain n where "apos n lib t = Some s'"
      using "1.IH" Continua by blast
    then have "apos (Suc n) lib s = Some s'"
      using Continua by simp
    then show ?thesis by blast
  next
    case (Sai t)
    then have "t = s'"
      using "1.prems" by (simp add: main_loop.simps [of lib s])
    then have "apos (Suc 0) lib s = Some s'"
      using Sai by simp
    then show ?thesis by blast
  next
    case (Excecao e)
    then show ?thesis
      using "1.prems" by (simp add: main_loop.simps [of lib s])
  qed
qed

text \<open>The example sessions, run.\<close>

lemma round_exemplo: "\<forall>x\<ge>0. py_ge (py_round lib_exemplo x) (Fin 0)"
  by (simp add: lib_exemplo_def)

lemma inicio_exemplo: "inicio lib_exemplo stdin Map.empty = Inr (s0_exemplo stdin)"
  by (simp add: inicio_def mundo_inicial_def carregar_dados_def s0_exemplo_def
      aloca_contas_def)

lemma apos_exemplo: "apos 4 lib_exemplo (s0_exemplo entrada_3_saques) = Some s4_exemplo"
  by (simp add: eval_nat_numeral s0_exemplo_def entrada_3_saques_def s4_exemplo_def
      iteracao_def menu_def py_input_def py_print_def validar_valor_def lib_exemplo_def
      float_exemplo_def depositar_def sacar_def LIMITE_SAQUES_def linha_deposito_def
      linha_saque_def)

lemma apos_exemplo_100: "apos 4 lib_exemplo (s0_exemplo entrada_100) = Some s4_exemplo_100"
  by (simp add: eval_nat_numeral s0_exemplo_def entrada_100_def s4_exemplo_100_def
      iteracao_def menu_def py_input_def py_print_def validar_valor_def lib_exemplo_def
      float_exemplo_def depositar_def sacar_def LIMITE_SAQUES_def linha_deposito_def
      linha_saque_def)

text \<open>
  Claim C3. A session starts with balance 0, an empty statement and no withdrawals.
  After any number of passes through the loop of \<open>main\<close>, whatever was typed (so after
  every finite sequence of deposits and withdrawals of positive amounts), the balance is
  not negative and the withdrawal count is at most \<open>LIMITE_SAQUES\<close>; the same holds of
  the state in which \<open>main\<close> returns. Of the rounding of float arithmetic this uses
  that the rounding of a non-negative number is not negative.
\<close>

theorem ledger_never_overdrawn:
  assumes "inicio lib stdin fs = Inr s0" "\<forall>x\<ge>0. py_ge (py_round lib x) (Fin 0)"
  shows "(\<forall>n v w. apos n lib s0 = Some (v, w) \<longrightarrow>
            py_ge (saldo v) (Fin 0) \<and> numero_saques v \<le> LIMITE_SAQUES)
       \<and> (\<forall>v w. main lib stdin fs = Inr (v, w) \<longrightarrow>
            py_ge (saldo v) (Fin 0) \<and> numero_saques v \<le> LIMITE_SAQUES)"
proof -
  have ok: "contagem_ok s0" "saldo_ok s0"
    using inicio_ok [OF assms(1)] by simp_all
  have a: "py_ge (saldo v) (Fin 0) \<and> numero_saques v \<le> LIMITE_SAQUES"
    if "apos n lib s0 = Some (v, w)" for n v w
    using apos_contagem [OF that ok(1)] apos_saldo [OF assms(2) that ok(2)]
    by (simp add: contagem_ok_def saldo_ok_def)
  have "py_ge (saldo v) (Fin 0) \<and> numero_saques v \<le> LIMITE_SAQUES"
    if "main lib stdin fs = Inr (v, w)" for v w
  proof -
    have "main_loop lib s0 = Inr (v, w)"
      using that assms(1) by (simp add: main_def)
    then show ?thesis
      using main_loop_apos a by blast
  qed
  with a show ?thesis by blast
qed

theorem ledger_never_overdrawn_witness:
  "inicio lib_exemplo entrada_3_saques Map.empty = Inr (s0_exemplo entrada_3_saques)
   \<and> apos 4 lib_exemplo (s0_exemplo entrada_3_saques) = Some s4_exemplo
   \<and> py_ge (saldo (fst s4_exemplo)) (Fin 0)
   \<and> numero_saques (fst s4_exemplo) \<le> LIMITE_SAQUES"
proof -
  have a: "apos 4 lib_exemplo (s0_exemplo entrada_3_saques)
             = Some (fst s4_exemplo, snd s4_exemplo)"
    using apos_exemplo by simp
  show ?thesis
    using ledger_never_overdrawn [OF inicio_exemplo round_exemplo, THEN conjunct1,
        rule_format, OF a] inicio_exemplo [of entrada_3_saques] apos_exemplo
    by simp
qed

text \<open>The withdrawal pass that \<open>sacar\<close> rejects changes no variable of \<open>main\<close>.\<close>

lemma iteracao_saque_rejeitado:
  assumes "entrada w = ''s'' # texto # resto" "py_float lib texto = Some valor"
    "py_gt valor (Fin 0)"
    "sacar lib (saldo v) valor (extrato v) (limite v) (numero_saques v) LIMITE_SAQUES
       = ((saldo v, extrato v, numero_saques v), [m])"
  shows "iteracao lib (v, w) = Continua (v, w\<lparr>entrada := resto, saida := saida w @ [m]\<rparr>)"
  using assms py_gt_zero_verdadeiro [OF assms(3)]
  by (simp add: iteracao_def menu_def py_input_def validar_valor_def py_print_def)

text \<open>
  Claim C1, as amended. Once a session has made \<open>LIMITE_SAQUES\<close> (3) successful
  withdrawals, every further call of \<open>sacar\<close> with a positive amount is rejected and
  leaves the balance, the statement and the withdrawal count unchanged. The message is
  the one for the maximum number of withdrawals when the amount exceeds neither the
  balance nor the limit; an amount above the balance gets the insufficient-balance
  message, and otherwise an amount above the limit gets the limit message.
\<close>

theorem sacar_after_max_withdrawals:
  assumes "inicio lib stdin fs = Inr s0" "apos n lib s0 = Some (v, w)"
    "saques_feitos w = nat LIMITE_SAQUES" "py_gt valor (Fin 0)"
  shows "sacar lib (saldo v) valor (extrato v) (limite v) (numero_saques v) LIMITE_SAQUES
           = ((saldo v, extrato v, numero_saques v),
              [if py_gt valor (saldo v) then Saldo_insuficiente
               else if py_gt valor (limite v) then Excede_limite
               else Saques_excedido])
       \<and> (\<forall>texto resto.
            entrada w = ''s'' # texto # resto \<and> py_float lib texto = Some valor \<longrightarrow>
            iteracao lib (v, w) =
              Continua (v, w\<lparr>entrada := resto,
                             saida := saida w @
                               [if py_gt valor (saldo v) then Saldo_insuficiente
                                else if py_gt valor (limite v) then Excede_limite
                                else Saques_excedido]\<rparr>))"
proof -
  have "contagem_ok (v, w)"
    using apos_contagem [OF assms(2)] inicio_ok [OF assms(1)] by simp
  then have "numero_saques v = LIMITE_SAQUES"
    using assms(3) by (simp add: contagem_ok_def LIMITE_SAQUES_def)
  then have *: "sacar lib (saldo v) valor (extrato v) (limite v) (numero_saques v)
      LIMITE_SAQUES
           = ((saldo v, extrato v, numero_saques v),
              [if py_gt valor (saldo v) then Saldo_insuficiente
               else if py_gt valor (limite v) then Excede_limite
               else Saques_excedido])"
    by (simp add: sacar_def)
  show ?thesis
    using * iteracao_saque_rejeitado [OF _ _ assms(4) *] by blast
qed

theorem sacar_after_max_withdrawals_witness:
  "inicio lib_exemplo entrada_100 Map.empty = Inr (s0_exemplo entrada_100)
   \<and> apos 4 lib_exemplo (s0_exemplo entrada_100) = Some s4_exemplo_100
   \<and> saques_feitos (snd s4_exemplo_100) = nat LIMITE_SAQUES
   \<and> py_gt (Fin 10) (Fin 0)
   \<and> sacar lib_exemplo (Fin 70) (Fin 10) (extrato (fst s4_exemplo_100)) (Fin 500) 3
        LIMITE_SAQUES
       = ((Fin 70, extrato (fst s4_exemplo_100), 3), [Saques_excedido])
   \<and> iteracao lib_exemplo s4_exemplo_100
       = Continua (fst s4_exemplo_100,
                   (snd s4_exemplo_100)\<lparr>entrada := [],
                      saida := saida (snd s4_exemplo_100) @ [Saques_excedido]\<rparr>)"
proof -
  have a: "apos 4 lib_exemplo (s0_exemplo entrada_100)
             = Some (fst s4_exemplo_100, snd s4_exemplo_100)"
    using apos_exemplo_100 by simp
  have b: "saques_feitos (snd s4_exemplo_100) = nat LIMITE_SAQUES"
    by (simp add: s4_exemplo_100_def saques_feitos_def LIMITE_SAQUES_def)
  have c: "py_gt (Fin 10) (Fin 0)" by simp
  show ?thesis
    using sacar_after_max_withdrawals [OF inicio_exemplo a b c]
      inicio_exemplo [of entrada_100] a b
    by (simp add: s4_exemplo_100_def lib_exemplo_def float_exemplo_def)
qed

text \<open>
  Claim C1 as stated asks for the maximum-withdrawals message also when the amount
  exceeds the balance. After a deposit of 30 and three withdrawals of 10 the balance is
  0, and a fourth withdrawal of 10 prints the insufficient-balance message instead.
\<close>

theorem sacar_after_max_withdrawals_counterexample:
  "inicio lib_exemplo entrada_3_saques Map.empty = Inr (s0_exemplo entrada_3_saques)
   \<and> apos 4 lib_exemplo (s0_exemplo entrada_3_saques) = Some s4_exemplo
   \<and> saques_feitos (snd s4_exemplo) = nat LIMITE_SAQUES
   \<and> py_gt (Fin 10) (Fin 0)
   \<and> sacar lib_exemplo (saldo (fst s4_exemplo)) (Fin 10) (extrato (fst s4_exemplo))
        (limite (fst s4_exemplo)) (numero_saques (fst s4_exemplo)) LIMITE_SAQUES
       = ((Fin 0, extrato (fst s4_exemplo), 3), [Saldo_insuficiente])
   \<and> [Saldo_insuficiente] \<noteq> [Saques_excedido]"
  using inicio_exemplo [of entrada_3_saques] apos_exemplo
  by (simp add: s4_exemplo_def saques_feitos_def LIMITE_SAQUES_def sacar_def)

text \<open>The deposit or withdrawal pass with an invalid amount changes no variable of \<open>main\<close>.\<close>

lemma iteracao_valor_invalido:
  assumes "opcao = ''d'' \<or> opcao = ''s''" "entrada w = opcao # texto # resto"
    "fst (validar_valor lib texto) = None"
  shows "iteracao lib (v, w) =
           Continua (v, w\<lparr>entrada := resto, saida := saida w @ [Valor_invalido]\<rparr>)"
  using assms
  by (auto simp: iteracao_def menu_def py_input_def validar_valor_def py_print_def
           split: option.splits if_splits)

text \<open>
  Claim C9. \<open>validar_valor\<close> returns the parsed amount exactly when \<open>float\<close> accepts
  the text and the value is greater than zero, and then prints nothing. It returns
  \<open>None\<close> exactly when \<open>float\<close> raises or the value is not greater than zero, and then
  prints the failure message. In \<open>main\<close>, a deposit or withdrawal pass whose amount is
  invalid leaves the ledger, and every other variable, as it was.
\<close>

theorem validar_valor_contract:
  "(validar_valor lib texto = (Some x, ms)
      \<longleftrightarrow> py_float lib texto = Some x \<and> py_gt x (Fin 0) \<and> ms = [])
   \<and> (fst (validar_valor lib texto) = None
      \<longleftrightarrow> (py_float lib texto = None
           \<or> (\<exists>y. py_float lib texto = Some y \<and> \<not> py_gt y (Fin 0))))
   \<and> (fst (validar_valor lib texto) = None
      \<longrightarrow> snd (validar_valor lib texto) = [Valor_invalido])
   \<and> (\<forall>v w opcao resto.
        fst (validar_valor lib texto) = None
          \<and> (opcao = ''d'' \<or> opcao = ''s'') \<and> entrada w = opcao # texto # resto
        \<longrightarrow> iteracao lib (v, w) =
              Continua (v, w\<lparr>entrada := resto, saida := saida w @ [Valor_invalido]\<rparr>))"
proof -
  have 1: "validar_valor lib texto = (Some x, ms)
      \<longleftrightarrow> py_float lib texto = Some x \<and> py_gt x (Fin 0) \<and> ms = []"
    by (auto simp: validar_valor_def split: option.splits)
  have 2: "fst (validar_valor lib texto) = None
      \<longleftrightarrow> (py_float lib texto = None
           \<or> (\<exists>y. py_float lib texto = Some y \<and> \<not> py_gt y (Fin 0)))"
    by (auto simp: validar_valor_def split: option.splits)
  have 3: "fst (validar_valor lib texto) = None
      \<longrightarrow> snd (validar_valor lib texto) = [Valor_invalido]"
    by (auto simp: validar_valor_def split: option.splits if_splits)
  show ?thesis
    using 1 2 3 iteracao_valor_invalido by blast
qed

theorem validar_valor_contract_witness:
  "validar_valor lib_exemplo ''100'' = (Some (Fin 100), [])
   \<and> validar_valor lib_exemplo ''inf'' = (Some PInf, [])
   \<and> validar_valor lib_exemplo ''abc'' = (None, [Valor_invalido])
   \<and> validar_valor lib_exemplo ''0'' = (None, [Valor_invalido])
   \<and> validar_valor lib_exemplo ''-5'' = (None, [Valor_invalido])
   \<and> validar_valor lib_exemplo ''nan'' = (None, [Valor_invalido])
   \<and> iteracao lib_exemplo (s0_exemplo [''s'', ''abc'', ''q''])
       = Continua (fst (s0_exemplo [''s'', ''abc'', ''q'']),
                   (snd (s0_exemplo [''s'', ''abc'', ''q'']))\<lparr>entrada := [''q''],
                      saida := [Valor_invalido]\<rparr>)"
proof -
  have a: "py_float lib_exemplo ''100'' = Some (Fin 100)"
    "py_float lib_exemplo ''inf'' = Some PInf"
    "py_float lib_exemplo ''abc'' = None" "py_float lib_exemplo ''0'' = Some (Fin 0)"
    "py_float lib_exemplo ''-5'' = Some (Fin (- 5))" "py_float lib_exemplo ''nan'' = Some NaN"
    by (simp_all add: lib_exemplo_def float_exemplo_def)
  have s: "s0_exemplo [''s'', ''abc'', ''q'']
             = (fst (s0_exemplo [''s'', ''abc'', ''q'']), snd (s0_exemplo [''s'', ''abc'', ''q'']))"
    by simp
  have e: "entrada (snd (s0_exemplo [''s'', ''abc'', ''q''])) = ''s'' # ''abc'' # [''q'']"
    "saida (snd (s0_exemplo [''s'', ''abc'', ''q''])) = []"
    by (simp_all add: s0_exemplo_def)
  note c = validar_valor_contract [of lib_exemplo]
  have n: "fst (validar_valor lib_exemplo ''abc'') = None"
    using c [of "''abc''"] a by simp
  note d = c [of "''abc''", THEN conjunct2, THEN conjunct2, THEN conjunct2, rule_format,
      where opcao = "''s''" and resto = "[''q'']"
        and w = "snd (s0_exemplo [''s'', ''abc'', ''q''])"
        and v = "fst (s0_exemplo [''s'', ''abc'', ''q''])"]
  have i: "iteracao lib_exemplo (s0_exemplo [''s'', ''abc'', ''q''])
       = Continua (fst (s0_exemplo [''s'', ''abc'', ''q'']),
                   (snd (s0_exemplo [''s'', ''abc'', ''q'']))\<lparr>entrada := [''q''],
                      saida := [Valor_invalido]\<rparr>)"
    using d n e by simp
  have v1: "validar_valor lib_exemplo ''100'' = (Some (Fin 100), [])"
    using c [of "''100''" "Fin 100" "[]"] a by simp
  have v2: "validar_valor lib_exemplo ''inf'' = (Some PInf, [])"
    using c [of "''inf''" PInf "[]"] a by simp
  have v3: "validar_valor lib_exemplo t = (None, [Valor_invalido])"
    if "py_float lib_exemplo t = None
        \<or> (\<exists>y. py_float lib_exemplo t = Some y \<and> \<not> py_gt y (Fin 0))" for t
  proof -
    have "fst (validar_valor lib_exemplo t) = None"
      using c [of t, THEN conjunct2, THEN conjunct1] that by simp
    moreover from this have "snd (validar_valor lib_exemplo t) = [Valor_invalido]"
      using c [of t, THEN conjunct2, THEN conjunct2, THEN conjunct1] by simp
    ultimately show ?thesis
      by (simp add: prod_eq_iff)
  qed
  show ?thesis
    using v1 v2 v3 [of "''abc''"] v3 [of "''0''"] v3 [of "''-5''"] v3 [of "''nan''"] a i
    by simp
qed

section \<open>Properties of the persistence adapter and the directories\<close>



lemma filtrar_usuario_None:
  "(filtrar_usuario cpf us objs = None) = (\<forall>a\<in>set us. u_cpf (objs ! a) \<noteq> cpf)"
  by (auto simp: filtrar_usuario_def find_None_iff)

lemma filtrar_usuario_Some:
  "filtrar_usuario cpf us objs = Some a \<Longrightarrow> a \<in> set us \<and> u_cpf (objs ! a) = cpf"
  by (auto simp: filtrar_usuario_def find_Some_iff)

text \<open>
  The records a directory stands for are those at its addresses. Appending a new object
  to the store and its address to the directory appends the new record and leaves the
  others as they were.
\<close>

lemma registros_novo:
  assumes "\<forall>a\<in>set us. a < length objs"
  shows "map (\<lambda>a. (objs @ [novo]) ! a) (us @ [length objs]) = map (\<lambda>a. objs ! a) us @ [novo]"
  using assms by (simp add: nth_append)

text \<open>
  In a session every address of the two directories is an address of the store: no dict
  is ever removed.
\<close>

lemma py_input_objetos: "py_input w = Inr (l, w') \<Longrightarrow> objetos w' = objetos w"
  by (auto simp: py_input_def split: list.splits)

lemma criar_usuario_enderecos:
  assumes "criar_usuario lib us w = Inr (us', w')" "\<forall>a\<in>set us. a < length (objetos w)"
  shows "(\<forall>a\<in>set us'. a < length (objetos w')) \<and> length (objetos w) \<le> length (objetos w')"
proof -
  have "a < Suc (length (objetos w))" if "a \<in> set us" for a
    using that assms(2) by (simp add: less_SucI)
  then show ?thesis
    using assms
    by (auto simp: criar_usuario_def py_input_def py_print_def salvar_dados_def Let_def
             split: sum.splits option.splits prod.splits list.splits)
qed

lemma criar_conta_enderecos:
  assumes "criar_conta lib ag num us cs w = Inr (cs', w')"
    "\<forall>a\<in>set us. a < length (objetos w)" "\<forall>c\<in>set cs. c_usuario c < length (objetos w)"
  shows "(\<forall>c\<in>set cs'. c_usuario c < length (objetos w')) \<and> objetos w' = objetos w"
proof -
  have "a < length (objetos w)" if "filtrar_usuario cpf us (objetos w) = Some a" for cpf a
    using filtrar_usuario_Some [OF that] assms(2) by blast
  then show ?thesis
    using assms(1,3)
    by (auto simp: criar_conta_def py_input_def py_print_def salvar_dados_def Let_def
             split: sum.splits option.splits prod.splits list.splits)
qed

lemma iteracao_enderecos:
  assumes "iteracao lib s = Continua s' \<or> iteracao lib s = Sai s'" "enderecos_ok s"
  shows "enderecos_ok s'"
proof -
  obtain v w v' w' where s: "s = (v, w)" "s' = (v', w')"
    by (cases s, cases s') auto
  have ok: "\<forall>a\<in>set (usuarios v). a < length (objetos w)"
    "\<forall>c\<in>set (contas v). c_usuario c < length (objetos w)"
    using assms(2) by (simp_all add: enderecos_ok_def s)
  from assms(1) obtain opcao w1 where m: "py_input w = Inr (opcao, w1)"
    by (auto simp: iteracao_def menu_def s split: sum.splits)
  then have o1: "objetos w1 = objetos w"
    by (rule py_input_objetos)
  have igual: ?thesis
    if "usuarios v' = usuarios v" "contas v' = contas v" "objetos w' = objetos w"
    using that ok by (simp add: enderecos_ok_def s)
  consider (d) "opcao = ''d''" | (s) "opcao = ''s''" | (nu) "opcao = ''nu''"
    | (nc) "opcao = ''nc''"
    | (outro) "opcao \<noteq> ''d''" "opcao \<noteq> ''s''" "opcao \<noteq> ''nu''" "opcao \<noteq> ''nc''"
    by blast
  then show ?thesis
  proof cases
    case d
    from assms(1) obtain texto w2 where i2: "py_input w1 = Inr (texto, w2)"
      by (auto simp: iteracao_def menu_def s m d split: sum.splits)
    have o2: "objetos w2 = objetos w"
      using py_input_objetos [OF i2] o1 by simp
    obtain valor ms where vv: "validar_valor lib texto = (valor, ms)"
      by (cases "validar_valor lib texto")
    have "usuarios v' = usuarios v \<and> contas v' = contas v \<and> objetos w' = objetos w"
      using assms(1) o2
      by (cases "verdadeiro valor")
         (auto simp: iteracao_def menu_def s m d i2 vv depositar_def py_print_def)
    then show ?thesis using igual by blast
  next
    case s
    from assms(1) obtain texto w2 where i2: "py_input w1 = Inr (texto, w2)"
      by (auto simp: iteracao_def menu_def \<open>s = (v, w)\<close> \<open>s' = (v', w')\<close> m s
               split: sum.splits)
    have o2: "objetos w2 = objetos w"
      using py_input_objetos [OF i2] o1 by simp
    obtain valor ms where vv: "validar_valor lib texto = (valor, ms)"
      by (cases "validar_valor lib texto")
    obtain r ms' where sac:
      "sacar lib (saldo v) (the valor) (extrato v) (limite v) (numero_saques v)
         LIMITE_SAQUES = (r, ms')"
      by (cases "sacar lib (saldo v) (the valor) (extrato v) (limite v) (numero_saques v)
                   LIMITE_SAQUES")
    have "usuarios v' = usuarios v \<and> contas v' = contas v \<and> objetos w' = objetos w"
      using assms(1) o2
      by (cases "verdadeiro valor"; cases r)
         (auto simp: iteracao_def menu_def \<open>s = (v, w)\<close> \<open>s' = (v', w')\<close> m s i2 vv sac
            py_print_def)
    then show ?thesis using igual by blast
  next
    case nu
    from assms(1) obtain us' where c: "criar_usuario lib (usuarios v) w1 = Inr (us', w')"
      and v': "v' = v\<lparr>usuarios := us'\<rparr>"
      by (auto simp: iteracao_def menu_def s m nu split: sum.splits)
    have "\<forall>a\<in>set (usuarios v). a < length (objetos w1)"
      using ok(1) o1 by simp
    from criar_usuario_enderecos [OF c this] show ?thesis
      using ok(2) o1 v' by (fastforce simp: enderecos_ok_def s)
  next
    case nc
    from assms(1) obtain cs' where
      c: "criar_conta lib AGENCIA (int (length (contas v)) + 1) (usuarios v) (contas v) w1
            = Inr (cs', w')"
      and v': "v' = v\<lparr>contas := cs'\<rparr>"
      by (auto simp: iteracao_def menu_def s m nc Let_def split: sum.splits)
    have "\<forall>a\<in>set (usuarios v). a < length (objetos w1)"
      "\<forall>c\<in>set (contas v). c_usuario c < length (objetos w1)"
      using ok o1 by simp_all
    from criar_conta_enderecos [OF c this] have
      a: "\<forall>c\<in>set cs'. c_usuario c < length (objetos w')" and b: "objetos w' = objetos w1"
      by blast+
    show ?thesis
      using ok(1) v' a by (simp add: enderecos_ok_def s b o1)
  next
    case outro
    have "usuarios v' = usuarios v \<and> contas v' = contas v \<and> objetos w' = objetos w"
      using assms(1) outro o1 unfolding s iteracao_def menu_def
      by (auto simp: m py_print_def listar_contas_def split: if_splits)
    then show ?thesis using igual by blast
  qed
qed

lemma inicio_enderecos: "inicio lib stdin fs = Inr s \<Longrightarrow> enderecos_ok s"
  by (auto simp: inicio_def mundo_inicial_def enderecos_ok_def aloca_contas_def Let_def
           in_set_enumerate_eq split: sum.splits)

lemma apos_enderecos:
  "inicio lib stdin fs = Inr s0 \<Longrightarrow> apos n lib s0 = Some s \<Longrightarrow> enderecos_ok s"
  using apos_inv [where P = enderecos_ok] iteracao_enderecos inicio_enderecos by blast

text \<open>
  Claim C7. When the directory has a user with the CPF typed in, \<open>criar_usuario\<close> prints
  the duplicate message and changes nothing else: the directory, the user objects and
  the files are as before, no file is written and no further line is read. When it has
  none, the three further lines are read, the new user is appended to the directory and
  the users file is written at once: what is dumped is the records of the directory as
  it was, in their order, followed by the new user, and nothing else of the store.
\<close>

theorem criar_usuario_duplicate_or_new:
  "(entrada w = cpf # resto \<and> (\<exists>a\<in>set us. u_cpf (objetos w ! a) = cpf) \<longrightarrow>
      criar_usuario lib us w
        = Inr (us, w\<lparr>entrada := resto, saida := saida w @ [Usuario_existe]\<rparr>))
   \<and> (entrada w = cpf # nome # nasc # ender # resto
        \<and> (\<forall>a\<in>set us. u_cpf (objetos w ! a) \<noteq> cpf)
        \<and> (\<forall>a\<in>set us. a < length (objetos w))
        \<and> novo = \<lparr>u_nome = nome, u_data_nascimento = nasc, u_cpf = cpf, u_endereco = ender\<rparr>
      \<longrightarrow>
      criar_usuario lib us w
        = Inr (us @ [length (objetos w)],
               w\<lparr>entrada := resto,
                  saida := saida w @ [Usuario_criado],
                  arquivos := (arquivos w)(USUARIOS_FILE \<mapsto>
                     dump_usuarios lib (map (\<lambda>a. objetos w ! a) us @ [novo])),
                  escritas := escritas w @ [USUARIOS_FILE],
                  objetos := objetos w @ [novo]\<rparr>)
      \<and> map (\<lambda>a. (objetos w @ [novo]) ! a) (us @ [length (objetos w)])
          = map (\<lambda>a. objetos w ! a) us @ [novo])"
proof -
  have 1: "criar_usuario lib us w
        = Inr (us, w\<lparr>entrada := resto, saida := saida w @ [Usuario_existe]\<rparr>)"
    if "entrada w = cpf # resto" "\<exists>a\<in>set us. u_cpf (objetos w ! a) = cpf"
  proof -
    have "filtrar_usuario cpf us (objetos w) \<noteq> None"
      using that(2) by (simp add: filtrar_usuario_None)
    then obtain a where "filtrar_usuario cpf us (objetos w) = Some a"
      by blast
    then show ?thesis
      using that(1) by (simp add: criar_usuario_def py_input_def py_print_def)
  qed
  have 2: "criar_usuario lib us w
        = Inr (us @ [length (objetos w)],
               w\<lparr>entrada := resto,
                  saida := saida w @ [Usuario_criado],
                  arquivos := (arquivos w)(USUARIOS_FILE \<mapsto>
                     dump_usuarios lib (map (\<lambda>a. objetos w ! a) us @ [novo])),
                  escritas := escritas w @ [USUARIOS_FILE],
                  objetos := objetos w @ [novo]\<rparr>)"
    if "entrada w = cpf # nome # nasc # ender # resto"
      "\<forall>a\<in>set us. u_cpf (objetos w ! a) \<noteq> cpf"
      "\<forall>a\<in>set us. a < length (objetos w)"
      "novo = \<lparr>u_nome = nome, u_data_nascimento = nasc, u_cpf = cpf, u_endereco = ender\<rparr>"
  proof -
    have "filtrar_usuario cpf us (objetos w) = None"
      using that(2) by (simp add: filtrar_usuario_None)
    moreover have "dados_usuarios (objetos w @ [novo]) (us @ [length (objetos w)])
                     = map (\<lambda>a. objetos w ! a) us @ [novo]"
      using registros_novo [OF that(3)] by (simp add: dados_usuarios_def)
    ultimately show ?thesis
      using that(1,4)
      by (simp add: criar_usuario_def py_input_def py_print_def salvar_dados_def Let_def)
  qed
  show ?thesis
  proof (intro conjI impI)
    assume "entrada w = cpf # resto \<and> (\<exists>a\<in>set us. u_cpf (objetos w ! a) = cpf)"
    then show "criar_usuario lib us w
        = Inr (us, w\<lparr>entrada := resto, saida := saida w @ [Usuario_existe]\<rparr>)"
      using 1 by simp
  next
    assume h: "entrada w = cpf # nome # nasc # ender # resto
        \<and> (\<forall>a\<in>set us. u_cpf (objetos w ! a) \<noteq> cpf)
        \<and> (\<forall>a\<in>set us. a < length (objetos w))
        \<and> novo = \<lparr>u_nome = nome, u_data_nascimento = nasc, u_cpf = cpf, u_endereco = ender\<rparr>"
    then show "criar_usuario lib us w
        = Inr (us @ [length (objetos w)],
               w\<lparr>entrada := resto,
                  saida := saida w @ [Usuario_criado],
                  arquivos := (arquivos w)(USUARIOS_FILE \<mapsto>
                     dump_usuarios lib (map (\<lambda>a. objetos w ! a) us @ [novo])),
                  escritas := escritas w @ [USUARIOS_FILE],
                  objetos := objetos w @ [novo]\<rparr>)"
      using 2 by simp
    from h have "\<forall>a\<in>set us. a < length (objetos w)"
      by simp
    then show "map (\<lambda>a. (objetos w @ [novo]) ! a) (us @ [length (objetos w)])
          = map (\<lambda>a. objetos w ! a) us @ [novo]"
      by (rule registros_novo)
  qed
qed

theorem criar_usuario_duplicate_or_new_witness:
  "criar_usuario lib_exemplo [0] (w_reinicio_exemplo [''123'', ''q''])
     = Inr ([0], \<lparr>entrada = [''q''], saida = [Usuario_existe], arquivos = Map.empty,
                  escritas = [], objetos = [ana, ana]\<rparr>)
   \<and> criar_usuario lib_exemplo [0]
        (w_reinicio_exemplo
           [''456'', ''Bia Reis'', ''03-04-1985'', ''Rua B, 2 - Sul - Natal/RN'', ''q''])
     = Inr ([0, 2],
            \<lparr>entrada = [''q''], saida = [Usuario_criado],
             arquivos = [USUARIOS_FILE \<mapsto> dump_usuarios_exemplo [ana, bia]],
             escritas = [USUARIOS_FILE],
             objetos = [ana, ana, bia]\<rparr>)"
proof -
  note t = criar_usuario_duplicate_or_new [where lib = lib_exemplo and us = "[0]"]
  have 1: "criar_usuario lib_exemplo [0] (w_reinicio_exemplo [''123'', ''q''])
     = Inr ([0], \<lparr>entrada = [''q''], saida = [Usuario_existe], arquivos = Map.empty,
                  escritas = [], objetos = [ana, ana]\<rparr>)"
    using t [where w = "w_reinicio_exemplo [''123'', ''q'']" and cpf = "''123''"
        and resto = "[''q'']", THEN conjunct1]
    by (simp add: w_reinicio_exemplo_def ana_def)
  have 2: "criar_usuario lib_exemplo [0]
        (w_reinicio_exemplo
           [''456'', ''Bia Reis'', ''03-04-1985'', ''Rua B, 2 - Sul - Natal/RN'', ''q''])
     = Inr ([0, 2],
            \<lparr>entrada = [''q''], saida = [Usuario_criado],
             arquivos = [USUARIOS_FILE \<mapsto> dump_usuarios_exemplo [ana, bia]],
             escritas = [USUARIOS_FILE],
             objetos = [ana, ana, bia]\<rparr>)"
    using t [where w = "w_reinicio_exemplo [''456'', ''Bia Reis'', ''03-04-1985'',
                                           ''Rua B, 2 - Sul - Natal/RN'', ''q'']"
        and cpf = "''456''" and resto = "[''q'']" and nome = "''Bia Reis''"
        and nasc = "''03-04-1985''" and ender = "''Rua B, 2 - Sul - Natal/RN''"
        and novo = bia, THEN conjunct2]
    by (simp add: w_reinicio_exemplo_def ana_def bia_def lib_exemplo_def)
  show ?thesis
    using 1 2 by simp
qed

text \<open>
  Claim C8. When no user of the directory has the CPF typed in, \<open>criar_conta\<close> prints
  the user-not-found message and changes nothing else: the account directory is returned
  as it was and no file is written.
\<close>

theorem criar_conta_unknown_cpf:
  assumes "entrada w = cpf # resto" "\<forall>a\<in>set us. u_cpf (objetos w ! a) \<noteq> cpf"
  shows "criar_conta lib ag num us cs w
           = Inr (cs, w\<lparr>entrada := resto, saida := saida w @ [Usuario_nao_encontrado]\<rparr>)"
proof -
  have "filtrar_usuario cpf us (objetos w) = None"
    using assms(2) by (simp add: filtrar_usuario_None)
  then show ?thesis
    using assms(1) by (simp add: criar_conta_def py_input_def py_print_def)
qed

theorem criar_conta_unknown_cpf_witness:
  "criar_conta lib_exemplo AGENCIA 1 [0] [] (w_exemplo [''999'', ''q''])
     = Inr ([], \<lparr>entrada = [''q''], saida = [Usuario_nao_encontrado], arquivos = Map.empty,
                 escritas = [], objetos = [ana]\<rparr>)"
  using criar_conta_unknown_cpf [where w = "w_exemplo [''999'', ''q'']" and cpf = "''999''"
      and resto = "[''q'']" and us = "[0]" and lib = lib_exemplo and ag = AGENCIA
      and num = 1 and cs = "[]"]
  by (simp add: w_exemplo_def ana_def)

text \<open>
  Claim C5, as amended. When \<open>criar_conta\<close> succeeds, the account appended in memory
  holds the matching user record of the user directory itself (the same object; no copy
  is made), and the accounts file written at that moment holds the user's fields as they
  are then. A later change of that user record shows through the account; it does not
  change the files.
\<close>

theorem criar_conta_shares_user:
  assumes "entrada w = cpf # resto" "filtrar_usuario cpf us (objetos w) = Some a"
    "conta = \<lparr>c_agencia = ag, c_numero_conta = num, c_usuario = a\<rparr>"
    "w' = w\<lparr>entrada := resto,
              saida := saida w @ [Conta_criada],
              arquivos := (arquivos w)(CONTAS_FILE \<mapsto>
                 dump_contas lib (dados_contas (objetos w) cs
                    @ [\<lparr>c_agencia = ag, c_numero_conta = num,
                        c_usuario = objetos w ! a\<rparr>])),
              escritas := escritas w @ [CONTAS_FILE]\<rparr>"
  shows "criar_conta lib ag num us cs w = Inr (cs @ [conta], w')
       \<and> a \<in> set us \<and> u_cpf (objetos w ! a) = cpf
       \<and> (\<forall>f. a < length (objetos w) \<longrightarrow>
            dados_conta (objetos (modificar_usuario a f w')) conta
              = \<lparr>c_agencia = ag, c_numero_conta = num, c_usuario = f (objetos w ! a)\<rparr>
            \<and> arquivos (modificar_usuario a f w') = arquivos w'
            \<and> escritas (modificar_usuario a f w') = escritas w')"
proof -
  have "criar_conta lib ag num us cs w = Inr (cs @ [conta], w')"
    using assms
    by (simp add: criar_conta_def py_input_def py_print_def salvar_dados_def Let_def
        dados_contas_def dados_conta_def)
  moreover have "dados_conta (objetos (modificar_usuario a f w')) conta
              = \<lparr>c_agencia = ag, c_numero_conta = num, c_usuario = f (objetos w ! a)\<rparr>"
    if "a < length (objetos w)" for f
    using that assms(3,4) by (simp add: modificar_usuario_def dados_conta_def)
  moreover have "arquivos (modificar_usuario a f w') = arquivos w'
            \<and> escritas (modificar_usuario a f w') = escritas w'" for f
    by (simp add: modificar_usuario_def)
  ultimately show ?thesis
    using filtrar_usuario_Some [OF assms(2)] by simp
qed

lemma criar_conta_exemplo:
  "criar_conta lib_exemplo AGENCIA 1 [0] [] (w_exemplo [''123'', ''q''])
     = Inr ([conta_exemplo], w_conta_exemplo)"
  by (simp add: criar_conta_def py_input_def py_print_def salvar_dados_def Let_def
      dados_contas_def dados_conta_def filtrar_usuario_def w_exemplo_def ana_def
      conta_exemplo_def w_conta_exemplo_def lib_exemplo_def AGENCIA_def)

theorem criar_conta_shares_user_witness:
  "filtrar_usuario ''123'' [0] (objetos (w_exemplo [''123'', ''q''])) = Some 0
   \<and> criar_conta lib_exemplo AGENCIA 1 [0] [] (w_exemplo [''123'', ''q''])
       = Inr ([conta_exemplo], w_conta_exemplo)
   \<and> dados_conta
        (objetos (modificar_usuario 0 (\<lambda>u. u\<lparr>u_nome := ''Ana Souza''\<rparr>) w_conta_exemplo))
        conta_exemplo
       = \<lparr>c_agencia = ''0001'', c_numero_conta = 1, c_usuario = ana\<lparr>u_nome := ''Ana Souza''\<rparr>\<rparr>
   \<and> arquivos (modificar_usuario 0 (\<lambda>u. u\<lparr>u_nome := ''Ana Souza''\<rparr>) w_conta_exemplo)
       = arquivos w_conta_exemplo"
proof -
  have f: "filtrar_usuario ''123'' [0] (objetos (w_exemplo [''123'', ''q''])) = Some 0"
    by (simp add: filtrar_usuario_def w_exemplo_def ana_def)
  have e: "entrada (w_exemplo [''123'', ''q'']) = ''123'' # [''q'']"
    by (simp add: w_exemplo_def)
  have c: "conta_exemplo = \<lparr>c_agencia = AGENCIA, c_numero_conta = 1, c_usuario = 0\<rparr>"
    by (simp add: conta_exemplo_def AGENCIA_def)
  have w: "w_conta_exemplo = (w_exemplo [''123'', ''q''])\<lparr>entrada := [''q''],
              saida := saida (w_exemplo [''123'', ''q'']) @ [Conta_criada],
              arquivos := (arquivos (w_exemplo [''123'', ''q'']))(CONTAS_FILE \<mapsto>
                 dump_contas lib_exemplo (dados_contas (objetos (w_exemplo [''123'', ''q''])) []
                    @ [\<lparr>c_agencia = AGENCIA, c_numero_conta = 1,
                        c_usuario = objetos (w_exemplo [''123'', ''q'']) ! 0\<rparr>])),
              escritas := escritas (w_exemplo [''123'', ''q'']) @ [CONTAS_FILE]\<rparr>"
    by (simp add: w_conta_exemplo_def w_exemplo_def lib_exemplo_def dados_contas_def
        AGENCIA_def)
  note t = criar_conta_shares_user [OF e f c w]
  have l: "0 < length (objetos (w_exemplo [''123'', ''q'']))"
    by (simp add: w_exemplo_def)
  have o: "objetos (w_exemplo [''123'', ''q'']) ! 0 = ana"
    by (simp add: w_exemplo_def)
  show ?thesis
    using t f l o by (simp add: AGENCIA_def)
qed

text \<open>
  Claim C5 as stated says the account keeps a copy that a later change of the user
  record does not reach. After the account for Ana Lima is created, changing the name in
  her record of the user directory changes the name seen through the account; and the
  next account created writes the accounts file anew, with the changed name in the
  first account too.
\<close>

theorem criar_conta_copy_counterexample:
  "criar_conta lib_exemplo AGENCIA 1 [0] [] (w_exemplo [''123'', ''q''])
     = Inr ([conta_exemplo], w_conta_exemplo)
   \<and> u_nome (c_usuario (dados_conta (objetos w_conta_exemplo) conta_exemplo)) = ''Ana Lima''
   \<and> u_nome (c_usuario (dados_conta (objetos w_mudado_exemplo) conta_exemplo)) = ''Ana Souza''
   \<and> dados_conta (objetos w_mudado_exemplo) conta_exemplo
       \<noteq> dados_conta (objetos w_conta_exemplo) conta_exemplo
   \<and> criar_conta lib_exemplo AGENCIA 2 [0] [conta_exemplo] w_mudado_exemplo
       = Inr ([conta_exemplo, \<lparr>c_agencia = ''0001'', c_numero_conta = 2, c_usuario = 0\<rparr>],
              w_segunda_conta_exemplo)"
  using criar_conta_exemplo
  by (simp add: dados_conta_def modificar_usuario_def w_conta_exemplo_def conta_exemplo_def
      ana_def w_mudado_exemplo_def w_segunda_conta_exemplo_def criar_conta_def py_input_def
      py_print_def salvar_dados_def Let_def dados_contas_def filtrar_usuario_def
      lib_exemplo_def AGENCIA_def)

end
